theory Spec2Isabelle
  imports Complex_Main
begin

section \<open>JavaScript values\<close>

text \<open>
  A JavaScript string is a sequence of UTF-16 code units; a code unit is modelled as a
  natural number.  \<open>js\<close> turns an ASCII literal of the source into such a string.
  Numbers are exact rationals: rounding, infinities and NaN of IEEE doubles are outside the
  model, except that a failed coercion to a number is \<open>None\<close> (NaN).
\<close>

type_synonym jsstring = "nat list"

definition js :: "string \<Rightarrow> jsstring" where
  "js s = map of_char s"

text \<open>
  The values that \<open>JSON.parse\<close> and object literals produce, plus \<open>undefined\<close>.
  An object holds its own enumerable properties in enumeration order.
\<close>

datatype jsval =
    Undefined
  | Null
  | Bool bool
  | Num rat
  | Str jsstring
  | Arr "jsval list"
  | Obj "(jsstring \<times> jsval) list"

datatype jstype = TUndefined | TObject | TBoolean | TNumber | TString

fun typeof :: "jsval \<Rightarrow> jstype" where
  "typeof Undefined = TUndefined"
| "typeof Null = TObject"
| "typeof (Bool b) = TBoolean"
| "typeof (Num n) = TNumber"
| "typeof (Str s) = TString"
| "typeof (Arr xs) = TObject"
| "typeof (Obj kvs) = TObject"

text \<open>Decimal rendering of an array index, as a property key.\<close>

fun decimal :: "nat \<Rightarrow> jsstring" where
  "decimal n = (if n < 10 then [48 + n] else decimal (n div 10) @ [48 + n mod 10])"

declare decimal.simps [simp del]

text \<open>\<open>Object.keys(v)\<close> and the keys a \<open>for (k in v)\<close> loop visits.\<close>

fun keys :: "jsval \<Rightarrow> jsstring list" where
  "keys (Obj kvs) = map fst kvs"
| "keys (Arr xs) = map decimal [0..<length xs]"
| "keys (Str s) = map decimal [0..<length s]"
| "keys v = []"

text \<open>
  Property read \<open>v[k]\<close> on a value that is neither \<open>null\<close> nor \<open>undefined\<close>.  The
  property names the source reads (\<open>project_id\<close>, \<open>fields\<close>, \<open>type\<close>, \<open>exp\<close>, ...) are
  not inherited from a prototype, so only own properties matter.
\<close>

fun getProp :: "jsval \<Rightarrow> jsstring \<Rightarrow> jsval" where
  "getProp (Obj kvs) k = (case map_of kvs k of Some v \<Rightarrow> v | None \<Rightarrow> Undefined)"
| "getProp (Arr xs) k =
     (if k = js ''length'' then Num (of_nat (length xs))
      else case map_of (zip (map decimal [0..<length xs]) xs) k of
             Some v \<Rightarrow> v | None \<Rightarrow> Undefined)"
| "getProp (Str s) k =
     (if k = js ''length'' then Num (of_nat (length s))
      else case map_of (zip (map decimal [0..<length s]) (map (\<lambda>c. Str [c]) s)) k of
             Some v \<Rightarrow> v | None \<Rightarrow> Undefined)"
| "getProp v k = Undefined"

text \<open>Truthiness, as \<open>!v\<close> and \<open>if (v)\<close> use it.\<close>

fun truthy :: "jsval \<Rightarrow> bool" where
  "truthy Undefined = False"
| "truthy Null = False"
| "truthy (Bool b) = b"
| "truthy (Num n) = (n \<noteq> 0)"
| "truthy (Str s) = (s \<noteq> [])"
| "truthy (Arr xs) = True"
| "truthy (Obj kvs) = True"

text \<open>White space and line terminators, the code units \<open>String.prototype.trim\<close> strips.\<close>

definition isWhiteSpace :: "nat \<Rightarrow> bool" where
  "isWhiteSpace c \<longleftrightarrow>
     (9 \<le> c \<and> c \<le> 13) \<or> c = 32 \<or> c = 160 \<or> c = 5760 \<or> (8192 \<le> c \<and> c \<le> 8202) \<or>
     c = 8232 \<or> c = 8233 \<or> c = 8239 \<or> c = 8287 \<or> c = 12288 \<or> c = 65279"

definition trim :: "jsstring \<Rightarrow> jsstring" where
  "trim s = rev (dropWhile isWhiteSpace (rev (dropWhile isWhiteSpace s)))"


section \<open>Schema construction\<close>

text \<open>
  \<open>createSchema\<close> validates its argument at run time with \<open>typeof\<close> checks and returns
  the argument itself.  Every \<open>throw\<close> of the source is a constructor of \<open>schema_error\<close>;
  the table and field names of the message are its arguments.  The function reads nothing
  but its argument: it takes and returns no storage or network state.
\<close>

datatype schema_error =
    SchemaTypeError
  | InvalidProjectId
  | InvalidVersion
  | InvalidTables
  | TableNotObject jsstring
  | InvalidFields jsstring
  | FieldNotObject jsstring jsstring
  | InvalidFieldType jsstring jsstring
  | InvalidIndexed jsstring jsstring

definition validTypes :: "jsstring list" where
  "validTypes = [js ''string'', js ''boolean'', js ''number'']"

definition isObject :: "jsval \<Rightarrow> bool" where
  "isObject v \<longleftrightarrow> typeof v = TObject \<and> v \<noteq> Null"

text \<open>The body of the inner loop, for one field of table \<open>tableName\<close>.\<close>

definition checkField :: "jsstring \<Rightarrow> jsstring \<Rightarrow> jsval \<Rightarrow> schema_error option" where
  "checkField tableName fieldName field =
     (if \<not> isObject field then Some (FieldNotObject tableName fieldName)
      else if (case getProp field (js ''type'') of
                 Str t \<Rightarrow> t \<notin> set validTypes | _ \<Rightarrow> True)
        then Some (InvalidFieldType tableName fieldName)
      else if getProp field (js ''indexed'') \<noteq> Undefined \<and>
              typeof (getProp field (js ''indexed'')) \<noteq> TBoolean
        then Some (InvalidIndexed tableName fieldName)
      else None)"

fun checkFields :: "jsstring \<Rightarrow> jsval \<Rightarrow> jsstring list \<Rightarrow> schema_error option" where
  "checkFields tableName fields [] = None"
| "checkFields tableName fields (fieldName # rest) =
     (case checkField tableName fieldName (getProp fields fieldName) of
        Some e \<Rightarrow> Some e
      | None \<Rightarrow> checkFields tableName fields rest)"

text \<open>The body of the outer loop, for one table.\<close>

definition checkTable :: "jsstring \<Rightarrow> jsval \<Rightarrow> schema_error option" where
  "checkTable tableName table =
     (if \<not> isObject table then Some (TableNotObject tableName)
      else if \<not> isObject (getProp table (js ''fields'')) \<or>
              length (keys (getProp table (js ''fields''))) = 0
        then Some (InvalidFields tableName)
      else checkFields tableName (getProp table (js ''fields''))
             (keys (getProp table (js ''fields''))))"

fun checkTables :: "jsval \<Rightarrow> jsstring list \<Rightarrow> schema_error option" where
  "checkTables tables [] = None"
| "checkTables tables (tableName # rest) =
     (case checkTable tableName (getProp tables tableName) of
        Some e \<Rightarrow> Some e
      | None \<Rightarrow> checkTables tables rest)"

definition createSchema :: "jsval \<Rightarrow> schema_error + jsval" where
  "createSchema schema =
     (if schema = Undefined \<or> schema = Null then Inl SchemaTypeError
      else if (case getProp schema (js ''project_id'') of
                 Str p \<Rightarrow> trim p = [] | _ \<Rightarrow> True)
        then Inl InvalidProjectId
      else if typeof (getProp schema (js ''version'')) \<noteq> TNumber then Inl InvalidVersion
      else if \<not> isObject (getProp schema (js ''tables'')) \<or>
              length (keys (getProp schema (js ''tables''))) = 0
        then Inl InvalidTables
      else case checkTables (getProp schema (js ''tables''))
                  (keys (getProp schema (js ''tables''))) of
             Some e \<Rightarrow> Inl e
           | None \<Rightarrow> Inr schema)"

subsection \<open>Schema shapes, for the statements about \<open>createSchema\<close>\<close>

text \<open>
  \<open>schemaOk\<close> describes the schemas that pass: a non-blank string \<open>project_id\<close>, a
  numeric \<open>version\<close>, at least one table, every table an object with a non-empty
  \<open>fields\<close> object, every field an object whose \<open>type\<close> is one of \<open>validTypes\<close> and whose
  \<open>indexed\<close> is absent or a boolean.
\<close>

definition fieldOk :: "jsval \<Rightarrow> bool" where
  "fieldOk field \<longleftrightarrow>
     isObject field \<and>
     (case getProp field (js ''type'') of Str t \<Rightarrow> t \<in> set validTypes | _ \<Rightarrow> False) \<and>
     (getProp field (js ''indexed'') = Undefined \<or>
      typeof (getProp field (js ''indexed'')) = TBoolean)"

definition tableOk :: "jsval \<Rightarrow> bool" where
  "tableOk table \<longleftrightarrow>
     isObject table \<and> isObject (getProp table (js ''fields'')) \<and>
     keys (getProp table (js ''fields'')) \<noteq> [] \<and>
     (\<forall>fieldName \<in> set (keys (getProp table (js ''fields''))).
        fieldOk (getProp (getProp table (js ''fields'')) fieldName))"

definition schemaOk :: "jsval \<Rightarrow> bool" where
  "schemaOk schema \<longleftrightarrow>
     schema \<noteq> Undefined \<and> schema \<noteq> Null \<and>
     (case getProp schema (js ''project_id'') of Str p \<Rightarrow> trim p \<noteq> [] | _ \<Rightarrow> False) \<and>
     typeof (getProp schema (js ''version'')) = TNumber \<and>
     isObject (getProp schema (js ''tables'')) \<and>
     keys (getProp schema (js ''tables'')) \<noteq> [] \<and>
     (\<forall>tableName \<in> set (keys (getProp schema (js ''tables''))).
        tableOk (getProp (getProp schema (js ''tables'')) tableName))"

text \<open>
  \<open>schemaBad allowed\<close>: some table has no \<open>fields\<close> property, or has a field whose type
  is not in \<open>allowed\<close>.  \<open>tablesDeclare allowed\<close>: every table declares a non-empty
  \<open>fields\<close> map with every field type in \<open>allowed\<close>.
\<close>

definition fieldTypeOutside :: "jsstring list \<Rightarrow> jsval \<Rightarrow> bool" where
  "fieldTypeOutside allowed field \<longleftrightarrow>
     (case getProp field (js ''type'') of Str t \<Rightarrow> t \<notin> set allowed | _ \<Rightarrow> True)"

definition tableBad :: "jsstring list \<Rightarrow> jsval \<Rightarrow> bool" where
  "tableBad allowed table \<longleftrightarrow>
     getProp table (js ''fields'') = Undefined \<or>
     (\<exists>fieldName \<in> set (keys (getProp table (js ''fields''))).
        fieldTypeOutside allowed (getProp (getProp table (js ''fields'')) fieldName))"

definition schemaBad :: "jsstring list \<Rightarrow> jsval \<Rightarrow> bool" where
  "schemaBad allowed schema \<longleftrightarrow>
     (\<exists>tableName \<in> set (keys (getProp schema (js ''tables''))).
        tableBad allowed (getProp (getProp schema (js ''tables'')) tableName))"

definition declaresFields :: "jsstring list \<Rightarrow> jsval \<Rightarrow> bool" where
  "declaresFields allowed table \<longleftrightarrow>
     isObject (getProp table (js ''fields'')) \<and>
     keys (getProp table (js ''fields'')) \<noteq> [] \<and>
     (\<forall>fieldName \<in> set (keys (getProp table (js ''fields''))).
        \<not> fieldTypeOutside allowed (getProp (getProp table (js ''fields'')) fieldName))"

definition tablesDeclare :: "jsstring list \<Rightarrow> jsval \<Rightarrow> bool" where
  "tablesDeclare allowed schema \<longleftrightarrow>
     (\<forall>tableName \<in> set (keys (getProp schema (js ''tables''))).
        declaresFields allowed (getProp (getProp schema (js ''tables'')) tableName))"

definition claimedTypes :: "jsstring list" where
  "claimedTypes = [js ''string'', js ''boolean'', js ''number'', js ''json'']"

text \<open>The notes schema of the README, with the project id and the type of \<open>tags\<close> left open.\<close>

definition notesSchema :: "jsstring \<Rightarrow> jsstring \<Rightarrow> jsval" where
  "notesSchema pid ty =
     Obj [(js ''project_id'', Str pid), (js ''version'', Num 1),
          (js ''tables'',
             Obj [(js ''notes'',
                Obj [(js ''type'', Str (js ''collection'')),
                     (js ''fields'',
                        Obj [(js ''title'', Obj [(js ''type'', Str (js ''string'')),
                                                (js ''indexed'', Bool True)]),
                             (js ''tags'', Obj [(js ''type'', Str ty)])])])])]"

text \<open>A schema whose only table declares no \<open>fields\<close> at all.\<close>

definition noFieldsSchema :: jsval where
  "noFieldsSchema =
     Obj [(js ''project_id'', Str (js ''p1'')), (js ''version'', Num 1),
          (js ''tables'', Obj [(js ''notes'', Obj [(js ''type'', Str (js ''collection''))])])]"

section \<open>Base64: \<open>btoa\<close> and \<open>atob\<close>\<close>

text \<open>
  The two platform functions the storage adapter and the token decoder call, after the
  HTML standard.  \<open>btoa\<close> throws (\<open>None\<close>) on a code unit above 255 and otherwise encodes
  the code units as bytes, padding with \<open>=\<close> (61).  \<open>atob\<close> is the forgiving decoder: it
  drops ASCII white space, removes one or two trailing \<open>=\<close> when the length is a multiple
  of four, throws when the remaining length is 1 modulo 4 or a code unit is outside the
  alphabet, and discards the bits of an incomplete last byte.
\<close>

definition b64char :: "nat \<Rightarrow> nat" where
  "b64char n =
     (if n < 26 then 65 + n else if n < 52 then 71 + n else if n < 62 then n - 4
      else if n = 62 then 43 else 47)"

definition b64value :: "nat \<Rightarrow> nat option" where
  "b64value c =
     (if 65 \<le> c \<and> c \<le> 90 then Some (c - 65)
      else if 97 \<le> c \<and> c \<le> 122 then Some (c - 71)
      else if 48 \<le> c \<and> c \<le> 57 then Some (c + 4)
      else if c = 43 then Some 62
      else if c = 47 then Some 63
      else None)"

fun sextets :: "nat list \<Rightarrow> nat list" where
  "sextets (a # b # c # rest) =
     [a div 4, (a mod 4) * 16 + b div 16, (b mod 16) * 4 + c div 64, c mod 64] @ sextets rest"
| "sextets [a, b] = [a div 4, (a mod 4) * 16 + b div 16, (b mod 16) * 4]"
| "sextets [a] = [a div 4, (a mod 4) * 16]"
| "sextets [] = []"

definition btoa :: "jsstring \<Rightarrow> jsstring option" where
  "btoa s =
     (if \<exists>c \<in> set s. 255 < c then None
      else Some (map b64char (sextets s) @ replicate ((3 - length s mod 3) mod 3) 61))"

fun octets :: "nat list \<Rightarrow> nat list" where
  "octets (a # b # c # d # rest) =
     [a * 4 + b div 16, (b mod 16) * 16 + c div 4, (c mod 4) * 64 + d] @ octets rest"
| "octets [a, b, c] = [a * 4 + b div 16, (b mod 16) * 16 + c div 4]"
| "octets [a, b] = [a * 4 + b div 16]"
| "octets [a] = []"
| "octets [] = []"

definition isAsciiWhitespace :: "nat \<Rightarrow> bool" where
  "isAsciiWhitespace c \<longleftrightarrow> c = 9 \<or> c = 10 \<or> c = 12 \<or> c = 13 \<or> c = 32"

definition stripPadding :: "jsstring \<Rightarrow> jsstring" where
  "stripPadding d =
     (if length d mod 4 = 0 then
        (if 2 \<le> length d \<and> drop (length d - 2) d = [61, 61] then take (length d - 2) d
         else if 1 \<le> length d \<and> drop (length d - 1) d = [61] then take (length d - 1) d
         else d)
      else d)"

definition atob :: "jsstring \<Rightarrow> jsstring option" where
  "atob data =
     (let d = stripPadding (filter (\<lambda>c. \<not> isAsciiWhitespace c) data)
      in if length d mod 4 = 1 then None
         else case those (map b64value d) of
                None \<Rightarrow> None
              | Some vs \<Rightarrow> Some (octets vs))"


section \<open>The provider's environment and state\<close>

datatype OS = Web | Native

datatype http_method = GET | POST

text \<open>
  A request as the source builds it.  \<open>body\<close> is the value handed to \<open>JSON.stringify\<close>
  (\<open>Undefined\<close> when the request has no body); the \<open>Authorization\<close> header keeps the value
  interpolated after \<open>Bearer\<close>.
\<close>

datatype header = ContentTypeJson | AuthorizationBearer jsval

record request =
  url :: jsstring
  httpMethod :: http_method
  headers :: "header list"
  body :: jsval

record response =
  ok :: bool
  status :: nat
  bodyText :: jsstring

text \<open>\<open>fetch\<close> either rejects (no connectivity) or resolves with a response.\<close>

datatype fetch_result = NetworkFailure | Responded response

text \<open>
  What the provider is given: the platform, the project id (the OAuth client id), the
  clock, the remote server as a function of the requests already seen and the request
  at hand, and the platform's library functions the source calls and this repository
  does not define: \<open>JSON.parse\<close> (\<open>None\<close>: SyntaxError), \<open>JSON.stringify\<close>, the UTF-8
  decoding that \<open>decodeURIComponent\<close> performs on percent-encoded bytes (\<open>None\<close>:
  URIError), and the coercion of a string or an array to a number (\<open>None\<close>: NaN).
\<close>

record env =
  platformOS :: OS
  project_id :: jsstring
  dateNow :: rat
  server :: "request list \<Rightarrow> request \<Rightarrow> fetch_result"
  JSON_parse :: "jsstring \<Rightarrow> jsval option"
  JSON_stringify :: "jsval \<Rightarrow> jsstring"
  utf8Decode :: "nat list \<Rightarrow> jsstring option"
  StringToNumber :: "jsstring \<Rightarrow> rat option"
  ArrayToNumber :: "jsval list \<Rightarrow> rat option"

record AuthState =
  accessToken :: jsval
  refreshToken :: jsval
  user :: jsval
  isSignedIn :: bool

text \<open>
  \<open>refreshAccessTokenRef.current\<close> starts as a stub that resolves to the empty string and
  is pointed at \<open>refreshAccessToken\<close> by the provider's mount effect.
\<close>

datatype refresh_ref = InitialStub | RefreshAccessToken

text \<open>
  The mutable state: the three key-value stores, the requests issued so far (oldest
  first), the React state \<open>authState\<close> and the ref.  \<open>SecureStore\<close> is an external
  collaborator, modelled by its contract as a key-value map; the stores are unbounded, so
  a quota or keychain failure is outside the model.
\<close>

record world =
  localStorage :: "jsstring \<rightharpoonup> jsstring"
  secureStore :: "jsstring \<rightharpoonup> jsstring"
  sessionStorage :: "jsstring \<rightharpoonup> jsstring"
  requests :: "request list"
  authState :: AuthState
  refreshAccessTokenRef :: refresh_ref

definition TOKEN_STORAGE_KEY :: jsstring where
  "TOKEN_STORAGE_KEY = js ''auth_tokens''"

definition USER_INFO_STORAGE_KEY :: jsstring where
  "USER_INFO_STORAGE_KEY = js ''user_info''"

definition tokenEndpoint :: jsstring where
  "tokenEndpoint = js ''https://api.basic.tech/auth/token''"

definition userInfoEndpoint :: jsstring where
  "userInfoEndpoint = js ''https://api.basic.tech/auth/userInfo''"

definition signedOut :: AuthState where
  "signedOut = \<lparr>accessToken = Null, refreshToken = Null, user = Null, isSignedIn = False\<rparr>"

subsection \<open>storageAdapter\<close>

text \<open>
  On the web a value is stored base64-encoded in \<open>localStorage\<close>; an exception of
  \<open>btoa\<close> or \<open>atob\<close> is caught and logged, so \<open>setItem\<close> then stores nothing and
  \<open>getItem\<close> returns \<open>null\<close> (\<open>None\<close>).  \<open>getItem\<close> also returns \<open>null\<close> when the stored
  string is falsy, that is absent or empty.
\<close>

definition setItem :: "env \<Rightarrow> jsstring \<Rightarrow> jsstring \<Rightarrow> world \<Rightarrow> world" where
  "setItem E key val w =
     (case platformOS E of
        Web \<Rightarrow>
          (case btoa val of
             None \<Rightarrow> w
           | Some encryptedValue \<Rightarrow> w\<lparr>localStorage := (localStorage w)(key \<mapsto> encryptedValue)\<rparr>)
      | Native \<Rightarrow> w\<lparr>secureStore := (secureStore w)(key \<mapsto> val)\<rparr>)"

definition getItem :: "env \<Rightarrow> jsstring \<Rightarrow> world \<Rightarrow> jsstring option" where
  "getItem E key w =
     (case platformOS E of
        Web \<Rightarrow>
          (case localStorage w key of
             None \<Rightarrow> None
           | Some encryptedValue \<Rightarrow> if encryptedValue = [] then None else atob encryptedValue)
      | Native \<Rightarrow> secureStore w key)"

definition deleteItem :: "env \<Rightarrow> jsstring \<Rightarrow> world \<Rightarrow> world" where
  "deleteItem E key w =
     (case platformOS E of
        Web \<Rightarrow> w\<lparr>localStorage := (localStorage w)(key := None)\<rparr>
      | Native \<Rightarrow> w\<lparr>secureStore := (secureStore w)(key := None)\<rparr>)"


subsection \<open>A concrete environment, for evaluating the model\<close>

text \<open>
  A small stand-in for the platform: \<open>JSON.parse\<close> and \<open>JSON.stringify\<close> are given by a
  finite table of strings and the values they denote, UTF-8 decoding accepts ASCII, and
  the string and array coercions to a number yield NaN.
\<close>

definition tableEnv ::
  "OS \<Rightarrow> rat \<Rightarrow> (request list \<Rightarrow> request \<Rightarrow> fetch_result) \<Rightarrow> (jsstring \<times> jsval) list \<Rightarrow> env" where
  "tableEnv os t srv tbl =
     \<lparr>platformOS = os, project_id = js ''p1'', dateNow = t, server = srv,
      JSON_parse = map_of tbl,
      JSON_stringify =
        (\<lambda>v. case find (\<lambda>kv. snd kv = v) tbl of Some kv \<Rightarrow> fst kv | None \<Rightarrow> js ''null''),
      utf8Decode = (\<lambda>bs. if \<forall>b \<in> set bs. b < 128 then Some bs else None),
      StringToNumber = (\<lambda>s. None),
      ArrayToNumber = (\<lambda>xs. None)\<rparr>"

definition noServer :: "request list \<Rightarrow> request \<Rightarrow> fetch_result" where
  "noServer history req = NetworkFailure"

definition emptyWorld :: world where
  "emptyWorld =
     \<lparr>localStorage = Map.empty, secureStore = Map.empty, sessionStorage = Map.empty,
      requests = [], authState = signedOut, refreshAccessTokenRef = RefreshAccessToken\<rparr>"

section \<open>Token decoding and expiry\<close>

text \<open>\<open>s.split(sep)\<close> for a one-unit separator, and \<open>s.replace(/a/g, b)\<close>.\<close>

fun splitOn :: "nat \<Rightarrow> jsstring \<Rightarrow> jsstring list" where
  "splitOn sep [] = [[]]"
| "splitOn sep (c # cs) =
     (if c = sep then [] # splitOn sep cs
      else case splitOn sep cs of
             p # ps \<Rightarrow> (c # p) # ps
           | [] \<Rightarrow> [[c]])"

definition replaceAll :: "nat \<Rightarrow> nat \<Rightarrow> jsstring \<Rightarrow> jsstring" where
  "replaceAll a b s = map (\<lambda>c. if c = a then b else c) s"

text \<open>
  The \<open>try\<close> block of \<open>decodeJWT\<close>: \<open>None\<close> when a step throws.  The second segment of
  the token is missing when the token has no dot (46); \<open>-\<close> (45) becomes \<open>+\<close> (43) and
  \<open>_\<close> (95) becomes \<open>/\<close> (47); \<open>atob\<close>, the UTF-8 decoding and \<open>JSON.parse\<close> may each
  throw.
\<close>

definition decodeJWT_try :: "env \<Rightarrow> jsstring \<Rightarrow> jsval option" where
  "decodeJWT_try E token =
     (let parts = splitOn 46 token
      in if length parts \<le> 1 then None
         else case atob (replaceAll 95 47 (replaceAll 45 43 (parts ! 1))) of
                None \<Rightarrow> None
              | Some bytes \<Rightarrow>
                  (case utf8Decode E bytes of
                     None \<Rightarrow> None
                   | Some jsonPayload \<Rightarrow> JSON_parse E jsonPayload))"

text \<open>
  \<open>decodeJWT\<close> with its \<open>catch\<close>, which returns \<open>null\<close>.  A token that is not a string
  has no \<open>split\<close> method; the call throws inside the \<open>try\<close> block as well.
\<close>

definition decodeJWT :: "env \<Rightarrow> jsval \<Rightarrow> jsval" where
  "decodeJWT E token =
     (case token of
        Str t \<Rightarrow> (case decodeJWT_try E t of None \<Rightarrow> Null | Some decoded \<Rightarrow> decoded)
      | _ \<Rightarrow> Null)"

text \<open>The coercion \<open>v * 1000\<close> applies to \<open>v\<close>; \<open>None\<close> is NaN.\<close>

fun ToNumber :: "env \<Rightarrow> jsval \<Rightarrow> rat option" where
  "ToNumber E Undefined = None"
| "ToNumber E Null = Some 0"
| "ToNumber E (Bool b) = Some (if b then 1 else 0)"
| "ToNumber E (Num n) = Some n"
| "ToNumber E (Str s) = StringToNumber E s"
| "ToNumber E (Arr xs) = ArrayToNumber E xs"
| "ToNumber E (Obj kvs) = None"

text \<open>
  A comparison with NaN is false, so a token with such an \<open>exp\<close> counts as not expired.
  The arithmetic is exact here.  It agrees with the source's double arithmetic whenever
  \<open>exp\<close> is an integer and the clock is an integer, both within the range of JavaScript
  dates (all values are then integers below \<open>2^53\<close>), and for every \<open>exp\<close> when the exact
  comparison says expired; for a fractional \<open>exp\<close> within rounding distance above the
  threshold the source may say expired where the exact comparison does not, and the
  results about a fresh token are stated for integer \<open>exp\<close> only.
\<close>

definition isTokenExpired :: "env \<Rightarrow> jsval \<Rightarrow> bool" where
  "isTokenExpired E token =
     (let decoded = decodeJWT E token
      in if \<not> truthy decoded \<or> \<not> truthy (getProp decoded (js ''exp'')) then True
         else case ToNumber E (getProp decoded (js ''exp'')) of
                None \<Rightarrow> False
              | Some e \<Rightarrow> e * 1000 - 5 * 60 * 1000 \<le> dateNow E)"


section \<open>The session operations\<close>

text \<open>
  Each operation takes the state and returns its outcome with the state it leaves: a
  thrown error is \<open>Inl\<close>, and what was written before the throw stays written.
\<close>

datatype auth_error =
    NoTokensFound
  | SyntaxError
  | TypeError
  | NetworkError
  | RefreshFailed jsstring
  | ExchangeFailed
  | UserInfoFailed
  | PromptFailed
  | UserNotAuthenticated

text \<open>\<open>fetch\<close> issues the request: it is appended to the log, and the server answers.\<close>

definition fetch :: "env \<Rightarrow> request \<Rightarrow> world \<Rightarrow> fetch_result \<times> world" where
  "fetch E req w = (server E (requests w) req, w\<lparr>requests := requests w @ [req]\<rparr>)"

definition storeTokens :: "env \<Rightarrow> jsval \<Rightarrow> world \<Rightarrow> (auth_error + unit) \<times> world" where
  "storeTokens E tokenData w =
     (if tokenData = Null \<or> tokenData = Undefined then (Inl TypeError, w)
      else (Inr (),
            setItem E TOKEN_STORAGE_KEY
              (JSON_stringify E
                 (Obj [(js ''accessToken'', getProp tokenData (js ''access_token'')),
                       (js ''refreshToken'', getProp tokenData (js ''refresh_token''))]))
              w))"

definition storeUserInfo :: "env \<Rightarrow> jsval \<Rightarrow> world \<Rightarrow> world" where
  "storeUserInfo E userInfo w = setItem E USER_INFO_STORAGE_KEY (JSON_stringify E userInfo) w"

definition refreshRequest :: "env \<Rightarrow> jsval \<Rightarrow> request" where
  "refreshRequest E refreshTok =
     \<lparr>url = tokenEndpoint, httpMethod = POST, headers = [ContentTypeJson],
      body = Obj [(js ''grant_type'', Str (js ''refresh_token'')),
                  (js ''code'', refreshTok),
                  (js ''client_id'', Str (project_id E))]\<rparr>"

definition refreshAccessToken :: "env \<Rightarrow> jsval \<Rightarrow> world \<Rightarrow> (auth_error + jsval) \<times> world" where
  "refreshAccessToken E refreshTok w =
     (case fetch E (refreshRequest E refreshTok) w of
        (NetworkFailure, w1) \<Rightarrow> (Inl NetworkError, w1)
      | (Responded r, w1) \<Rightarrow>
          if \<not> ok r then (Inl (RefreshFailed (bodyText r)), w1)
          else case JSON_parse E (bodyText r) of
                 None \<Rightarrow> (Inl SyntaxError, w1)
               | Some tokenData \<Rightarrow>
                   (case storeTokens E tokenData w1 of
                      (Inl e, w2) \<Rightarrow> (Inl e, w2)
                    | (Inr u, w2) \<Rightarrow> (Inr (getProp tokenData (js ''access_token'')), w2)))"

text \<open>The call through \<open>refreshAccessTokenRef.current\<close>.\<close>

definition callRefreshRef :: "env \<Rightarrow> jsval \<Rightarrow> world \<Rightarrow> (auth_error + jsval) \<times> world" where
  "callRefreshRef E refreshTok w =
     (case refreshAccessTokenRef w of
        InitialStub \<Rightarrow> (Inr (Str []), w)
      | RefreshAccessToken \<Rightarrow> refreshAccessToken E refreshTok w)"

definition fetchToken :: "env \<Rightarrow> world \<Rightarrow> (auth_error + jsval) \<times> world" where
  "fetchToken E w =
     (case getItem E TOKEN_STORAGE_KEY w of
        None \<Rightarrow> (Inl NoTokensFound, w)
      | Some storedTokens \<Rightarrow>
          if storedTokens = [] then (Inl NoTokensFound, w)
          else case JSON_parse E storedTokens of
                 None \<Rightarrow> (Inl SyntaxError, w)
               | Some parsed \<Rightarrow>
                   if parsed = Null \<or> parsed = Undefined then (Inl TypeError, w)
                   else if \<not> isTokenExpired E (getProp parsed (js ''accessToken''))
                     then (Inr (getProp parsed (js ''accessToken'')), w)
                   else callRefreshRef E (getProp parsed (js ''refreshToken'')) w)"

text \<open>The \<open>getToken\<close> closure the provider hands to the database client.\<close>

definition getToken :: "env \<Rightarrow> world \<Rightarrow> (auth_error + jsval) \<times> world" where
  "getToken E w =
     (case fetchToken E w of
        (Inl e, w1) \<Rightarrow> (Inl e, w1)
      | (Inr tok, w1) \<Rightarrow> if \<not> truthy tok then (Inl UserNotAuthenticated, w1) else (Inr tok, w1))"

definition signout :: "env \<Rightarrow> world \<Rightarrow> world" where
  "signout E w =
     (deleteItem E USER_INFO_STORAGE_KEY (deleteItem E TOKEN_STORAGE_KEY w))
       \<lparr>authState := signedOut\<rparr>"

definition exchangeRequest :: "env \<Rightarrow> jsval \<Rightarrow> request" where
  "exchangeRequest E code =
     \<lparr>url = tokenEndpoint, httpMethod = POST, headers = [ContentTypeJson],
      body = Obj [(js ''code'', code),
                  (js ''client_id'', Str (project_id E)),
                  (js ''grant_type'', Str (js ''authorization_code''))]\<rparr>"

definition userInfoRequest :: "jsval \<Rightarrow> request" where
  "userInfoRequest tok =
     \<lparr>url = userInfoEndpoint, httpMethod = GET, headers = [AuthorizationBearer tok],
      body = Undefined\<rparr>"

definition handleLoginCode :: "env \<Rightarrow> jsval \<Rightarrow> world \<Rightarrow> (auth_error + unit) \<times> world" where
  "handleLoginCode E code w =
     (case fetch E (exchangeRequest E code) w of
        (NetworkFailure, w1) \<Rightarrow> (Inl NetworkError, w1)
      | (Responded tokenResponse, w1) \<Rightarrow>
          if \<not> ok tokenResponse then (Inl ExchangeFailed, w1)
          else case JSON_parse E (bodyText tokenResponse) of
                 None \<Rightarrow> (Inl SyntaxError, w1)
               | Some tokenData \<Rightarrow>
                   (case storeTokens E tokenData w1 of
                      (Inl e, w2) \<Rightarrow> (Inl e, w2)
                    | (Inr u, w2) \<Rightarrow>
                        (case fetch E (userInfoRequest (getProp tokenData (js ''access_token''))) w2 of
                           (NetworkFailure, w3) \<Rightarrow> (Inl NetworkError, w3)
                         | (Responded userInfoResponse, w3) \<Rightarrow>
                             if \<not> ok userInfoResponse then (Inl UserInfoFailed, w3)
                             else case JSON_parse E (bodyText userInfoResponse) of
                                    None \<Rightarrow> (Inl SyntaxError, w3)
                                  | Some userInfo \<Rightarrow>
                                      (Inr (),
                                       (storeUserInfo E userInfo w3)
                                         \<lparr>authState :=
                                            \<lparr>accessToken = getProp tokenData (js ''access_token''),
                                             refreshToken = getProp tokenData (js ''refresh_token''),
                                             user = userInfo,
                                             isSignedIn = True\<rparr>\<rparr>))))"

text \<open>
  \<open>login\<close> on a native platform.  The outcome of \<open>promptAsync\<close> is an input: it rejects,
  or resolves with type \<open>success\<close> and a code, or with another type (cancel, dismiss,
  error).  The \<open>catch\<close> block signs out and throws the error again.
\<close>

datatype prompt_result = PromptRejected | PromptSuccess jsval | PromptOther

definition loginNative :: "env \<Rightarrow> prompt_result \<Rightarrow> world \<Rightarrow> (auth_error + unit) \<times> world" where
  "loginNative E result w =
     (case result of
        PromptRejected \<Rightarrow> (Inl PromptFailed, signout E w)
      | PromptSuccess code \<Rightarrow>
          (case handleLoginCode E code w of
             (Inl e, w1) \<Rightarrow> (Inl e, signout E w1)
           | (Inr u, w1) \<Rightarrow> (Inr (), w1))
      | PromptOther \<Rightarrow> (Inr (), w))"

text \<open>
  \<open>login\<close> on the web: \<open>AuthWebHandler\<close> renders five random bytes as ten hex digits,
  stores them as the state of this attempt, and the page navigates to the authorization
  URL.
\<close>

definition hexDigit :: "nat \<Rightarrow> nat" where
  "hexDigit d = (if d < 10 then 48 + d else 87 + d)"

definition generateRandomState :: "nat list \<Rightarrow> jsstring" where
  "generateRandomState randomBytes =
     concat (map (\<lambda>b. [hexDigit (b div 16), hexDigit (b mod 16)]) randomBytes)"

definition OAUTH_STATE_KEY :: jsstring where
  "OAUTH_STATE_KEY = js ''basic_oauth_state''"

definition loginWeb :: "nat list \<Rightarrow> world \<Rightarrow> world" where
  "loginWeb randomBytes w =
     w\<lparr>sessionStorage := (sessionStorage w)(OAUTH_STATE_KEY \<mapsto> generateRandomState randomBytes)\<rparr>"

text \<open>
  The callback branch of the provider's mount effect, on the web.  Its inputs are what the
  page URL holds: whether the path contains \<open>oauth/callback\<close>, and the \<open>code\<close> and
  \<open>state\<close> query parameters (\<open>None\<close>: absent).  \<open>handleLoginCode\<close> is called without
  \<open>await\<close> and without \<open>catch\<close>: its outcome is returned here, but in the source nothing
  observes a rejection, and no sign-out follows it.
\<close>

definition oauthCallback ::
  "env \<Rightarrow> bool \<Rightarrow> jsstring option \<Rightarrow> jsstring option \<Rightarrow> world \<Rightarrow> (auth_error + unit) \<times> world" where
  "oauthCallback E pathIsCallback code state w =
     (if platformOS E = Web \<and> pathIsCallback then
        (case code of
           None \<Rightarrow> (Inr (), w)
         | Some c \<Rightarrow>
             if c \<noteq> [] \<and> state = sessionStorage w OAUTH_STATE_KEY
             then handleLoginCode E (Str c) w
             else (Inr (), w))
      else (Inr (), w))"


subsection \<open>Sample data, for evaluating the session operations\<close>

text \<open>\<open>jsq\<close>: an ASCII literal in which a backquote stands for the double quote (34).\<close>

definition jsq :: "string \<Rightarrow> jsstring" where
  "jsq s = map (\<lambda>c. if c = CHR 0x60 then 34 else of_char c) s"

definition tokensText :: "jsstring \<Rightarrow> jsstring \<Rightarrow> jsstring" where
  "tokensText a r = jsq ''{`accessToken`:`'' @ a @ jsq ''`,`refreshToken`:`'' @ r @ jsq ''`}''"

definition tokensValue :: "jsstring \<Rightarrow> jsstring \<Rightarrow> jsval" where
  "tokensValue a r = Obj [(js ''accessToken'', Str a), (js ''refreshToken'', Str r)]"

definition tokenResponseText :: "jsstring \<Rightarrow> jsstring \<Rightarrow> jsstring" where
  "tokenResponseText a r = jsq ''{`access_token`:`'' @ a @ jsq ''`,`refresh_token`:`'' @ r @ jsq ''`}''"

definition tokenResponseValue :: "jsstring \<Rightarrow> jsstring \<Rightarrow> jsval" where
  "tokenResponseValue a r = Obj [(js ''access_token'', Str a), (js ''refresh_token'', Str r)]"

text \<open>
  A token whose payload segment is the base64 of \<open>{"exp":2000}\<close>, one whose payload
  \<open>{"sub":"u1"}\<close> has no \<open>exp\<close>, and the JSON texts the sample platform can parse and print.
\<close>

definition jwtExp2000 :: jsstring where
  "jwtExp2000 = js ''h.eyJleHAiOjIwMDB9.s''"

definition jwtNoExp :: jsstring where
  "jwtNoExp = js ''h.eyJzdWIiOiJ1MSJ9.s''"

text \<open>A token whose payload is \<open>{"exp":"soon"}\<close>: the \<open>exp\<close> is a string that is no number.\<close>

definition jwtExpSoon :: jsstring where
  "jwtExpSoon = js ''h.eyJleHAiOiJzb29uIn0.s''"

definition sampleTable :: "(jsstring \<times> jsval) list" where
  "sampleTable =
     [(jsq ''{`exp`:2000}'', Obj [(js ''exp'', Num 2000)]),
      (jsq ''{`sub`:`u1`}'', Obj [(js ''sub'', Str (js ''u1''))]),
      (tokensText jwtExp2000 (js ''r1''), tokensValue jwtExp2000 (js ''r1'')),
      (tokensText jwtNoExp (js ''r1''), tokensValue jwtNoExp (js ''r1'')),
      (tokensText (js ''garbage'') (js ''r1''), tokensValue (js ''garbage'') (js ''r1'')),
      (tokensText (js ''a2'') (js ''r2''), tokensValue (js ''a2'') (js ''r2'')),
      (tokensText (js ''a3'') (js ''r3''), tokensValue (js ''a3'') (js ''r3'')),
      (tokenResponseText (js ''a2'') (js ''r2''), tokenResponseValue (js ''a2'') (js ''r2'')),
      (tokenResponseText (js ''a3'') (js ''r3''), tokenResponseValue (js ''a3'') (js ''r3'')),
      (jsq ''{`exp`:`soon`}'', Obj [(js ''exp'', Str (js ''soon''))]),
      (tokensText jwtExpSoon (js ''r1''), tokensValue jwtExpSoon (js ''r1''))]"

text \<open>
  A server that answers every token request with the given body and status 200, and every
  other request with status 401.
\<close>

definition tokenServer :: "jsstring \<Rightarrow> request list \<Rightarrow> request \<Rightarrow> fetch_result" where
  "tokenServer text history req =
     (if url req = tokenEndpoint then Responded \<lparr>ok = True, status = 200, bodyText = text\<rparr>
      else Responded \<lparr>ok = False, status = 401, bodyText = []\<rparr>)"

definition sampleEnv :: "OS \<Rightarrow> rat \<Rightarrow> env" where
  "sampleEnv os t =
     tableEnv os t (tokenServer (tokenResponseText (js ''a2'') (js ''r2''))) sampleTable"

text \<open>A world whose secret store holds the token pair \<open>(a, r1)\<close> and nothing else.\<close>

definition storedWorld :: "OS \<Rightarrow> jsstring \<Rightarrow> world" where
  "storedWorld os a =
     setItem (sampleEnv os 0) TOKEN_STORAGE_KEY (tokensText a (js ''r1'')) emptyWorld"


section \<open>Concurrent calls of the token accessor\<close>

text \<open>
  JavaScript runs an \<open>async\<close> function in segments: a segment runs without interruption
  from one \<open>await\<close> to the next, and segments of different calls interleave.  One call of
  \<open>fetchToken\<close> passes through these states:

  \<^item> \<open>Started\<close>: called; its first segment reads the store through \<open>getItem\<close> and waits;
  \<^item> \<open>GotStored\<close>: it resumes with what was read; it either finishes (no tokens, a parse
    error, a fresh token) or goes through the ref into \<open>refreshAccessToken\<close>, which runs
    up to \<open>await fetch\<close>, so the request is issued in this very segment;
  \<^item> \<open>Awaiting\<close>: the request is in flight, with the answer the server gave to it; when
    the answer is delivered, the rest of \<open>refreshAccessToken\<close> runs (the tokens are
    stored) and the call finishes;
  \<^item> \<open>Done\<close>: finished, resolved (\<open>Inr\<close>) or rejected (\<open>Inl\<close>).
\<close>

datatype task =
    Started
  | GotStored "jsstring option"
  | Awaiting fetch_result
  | Done "auth_error + jsval"

text \<open>The part of \<open>refreshAccessToken\<close> after \<open>await fetch\<close>.\<close>

definition refreshDeliver :: "env \<Rightarrow> fetch_result \<Rightarrow> world \<Rightarrow> (auth_error + jsval) \<times> world" where
  "refreshDeliver E res w =
     (case res of
        NetworkFailure \<Rightarrow> (Inl NetworkError, w)
      | Responded r \<Rightarrow>
          if \<not> ok r then (Inl (RefreshFailed (bodyText r)), w)
          else case JSON_parse E (bodyText r) of
                 None \<Rightarrow> (Inl SyntaxError, w)
               | Some tokenData \<Rightarrow>
                   (case storeTokens E tokenData w of
                      (Inl e, w2) \<Rightarrow> (Inl e, w2)
                    | (Inr u, w2) \<Rightarrow> (Inr (getProp tokenData (js ''access_token'')), w2)))"

text \<open>The part of \<open>fetchToken\<close> after \<open>await storageAdapter.getItem\<close>, up to its next wait.\<close>

definition fetchTokenResume :: "env \<Rightarrow> jsstring option \<Rightarrow> world \<Rightarrow> task \<times> world" where
  "fetchTokenResume E stored w =
     (case stored of
        None \<Rightarrow> (Done (Inl NoTokensFound), w)
      | Some storedTokens \<Rightarrow>
          if storedTokens = [] then (Done (Inl NoTokensFound), w)
          else case JSON_parse E storedTokens of
                 None \<Rightarrow> (Done (Inl SyntaxError), w)
               | Some parsed \<Rightarrow>
                   if parsed = Null \<or> parsed = Undefined then (Done (Inl TypeError), w)
                   else if \<not> isTokenExpired E (getProp parsed (js ''accessToken''))
                     then (Done (Inr (getProp parsed (js ''accessToken''))), w)
                   else (case refreshAccessTokenRef w of
                           InitialStub \<Rightarrow> (Done (Inr (Str [])), w)
                         | RefreshAccessToken \<Rightarrow>
                             (case fetch E (refreshRequest E (getProp parsed (js ''refreshToken''))) w of
                                (res, w1) \<Rightarrow> (Awaiting res, w1))))"

definition stepTask :: "env \<Rightarrow> task \<Rightarrow> world \<Rightarrow> task \<times> world" where
  "stepTask E t w =
     (case t of
        Started \<Rightarrow> (GotStored (getItem E TOKEN_STORAGE_KEY w), w)
      | GotStored stored \<Rightarrow> fetchTokenResume E stored w
      | Awaiting res \<Rightarrow> (case refreshDeliver E res w of (r, w1) \<Rightarrow> (Done r, w1))
      | Done r \<Rightarrow> (Done r, w))"

text \<open>
  A schedule is the list of the calls whose next segment runs, in order.  \<open>stepAt\<close> runs
  the next segment of call \<open>i\<close>; \<open>run\<close> follows a schedule.
\<close>

definition stepAt :: "env \<Rightarrow> nat \<Rightarrow> task list \<times> world \<Rightarrow> task list \<times> world" where
  "stepAt E i s =
     (if i < length (fst s)
      then (case stepTask E (fst s ! i) (snd s) of (t, w1) \<Rightarrow> ((fst s)[i := t], w1))
      else s)"

definition run :: "env \<Rightarrow> nat list \<Rightarrow> task list \<times> world \<Rightarrow> task list \<times> world" where
  "run E schedule s = foldl (\<lambda>s i. stepAt E i s) s schedule"

text \<open>
  \<open>n\<close> calls made in the same tick: each call runs its first segment when it is made;
  the resumptions are microtasks and all run, in order, before any response is handled;
  then the responses are delivered.
\<close>

definition sameTick :: "nat \<Rightarrow> nat list" where
  "sameTick n = [0..<n] @ [0..<n] @ [0..<n]"

text \<open>One pass over a list of calls: the next segment of each, in order.\<close>

fun pass :: "env \<Rightarrow> task list \<Rightarrow> world \<Rightarrow> task list \<times> world" where
  "pass E [] w = ([], w)"
| "pass E (t # ts) w =
     (case stepTask E t w of
        (t1, w1) \<Rightarrow> (case pass E ts w1 of (ts1, w2) \<Rightarrow> (t1 # ts1, w2)))"

text \<open>
  A server that rotates tokens: the first token request is answered with the pair
  \<open>(a2, r2)\<close>, every later one with \<open>(a3, r3)\<close>.
\<close>

definition rotatingServer :: "request list \<Rightarrow> request \<Rightarrow> fetch_result" where
  "rotatingServer history req =
     (if history = []
      then Responded \<lparr>ok = True, status = 200, bodyText = tokenResponseText (js ''a2'') (js ''r2'')\<rparr>
      else Responded \<lparr>ok = True, status = 200, bodyText = tokenResponseText (js ''a3'') (js ''r3'')\<rparr>)"

definition rotatingEnv :: "rat \<Rightarrow> env" where
  "rotatingEnv t = tableEnv Native t rotatingServer sampleTable"


section \<open>Query chain: limit and offset\<close>

text \<open>
  Modelled from the spec: the query builder behind \<open>getAll().limit(n).offset(m)\<close> is
  missing from the sources at hand (the README and the changelog describe it; the table
  client under \<open>src/\<close> has \<open>getAll\<close> only).  The spec's descriptor keeps an optional
  limit and an optional offset; each chained call records its argument, and the
  finalized query resolves both against the fetched set: \<open>offset(n)\<close> skips the first
  \<open>n\<close> results, then \<open>limit(n)\<close> caps the count.
\<close>

record 'r QueryDescriptor =
  fetched :: "'r list"
  qlimit :: "nat option"
  qoffset :: "nat option"

definition getAll :: "'r list \<Rightarrow> 'r QueryDescriptor" where
  "getAll rs = \<lparr>fetched = rs, qlimit = None, qoffset = None\<rparr>"

definition limit :: "nat \<Rightarrow> 'r QueryDescriptor \<Rightarrow> 'r QueryDescriptor" where
  "limit n q = q\<lparr>qlimit := Some n\<rparr>"

definition offset :: "nat \<Rightarrow> 'r QueryDescriptor \<Rightarrow> 'r QueryDescriptor" where
  "offset n q = q\<lparr>qoffset := Some n\<rparr>"

definition resolve :: "'r QueryDescriptor \<Rightarrow> 'r list" where
  "resolve q =
     (let skipped = (case qoffset q of None \<Rightarrow> fetched q | Some n \<Rightarrow> drop n (fetched q))
      in case qlimit q of None \<Rightarrow> skipped | Some n \<Rightarrow> take n skipped)"


section \<open>Schema construction: results\<close>

lemma checkField_None: "checkField tn fn field = None \<longleftrightarrow> fieldOk field"
  by (auto simp: checkField_def fieldOk_def split: jsval.splits)

lemma checkFields_None:
  "checkFields tn flds ks = None \<longleftrightarrow> (\<forall>k \<in> set ks. fieldOk (getProp flds k))"
proof (induction ks)
  case Nil
  show ?case by simp
next
  case (Cons k ks)
  show ?case
    using Cons checkField_None [of tn k "getProp flds k"]
    by (cases "checkField tn k (getProp flds k)") auto
qed

lemma checkTable_None: "checkTable tn table = None \<longleftrightarrow> tableOk table"
  by (auto simp: checkTable_def tableOk_def checkFields_None)

lemma checkTables_None:
  "checkTables tables ks = None \<longleftrightarrow> (\<forall>k \<in> set ks. tableOk (getProp tables k))"
proof (induction ks)
  case Nil
  show ?case by simp
next
  case (Cons k ks)
  show ?case
    using Cons checkTable_None [of k "getProp tables k"]
    by (cases "checkTable k (getProp tables k)") auto
qed

lemma createSchema_Inr: "createSchema schema = Inr s \<longleftrightarrow> schemaOk schema \<and> s = schema"
proof (cases "checkTables (getProp schema (js ''tables'')) (keys (getProp schema (js ''tables'')))")
  case None
  then show ?thesis
    using checkTables_None [of "getProp schema (js ''tables'')" "keys (getProp schema (js ''tables''))"]
    by (auto simp: createSchema_def schemaOk_def split: jsval.splits)
next
  case (Some e)
  then show ?thesis
    using checkTables_None [of "getProp schema (js ''tables'')" "keys (getProp schema (js ''tables''))"]
    by (auto simp: createSchema_def schemaOk_def split: jsval.splits)
qed

lemma createSchema_isl: "isl (createSchema schema) \<longleftrightarrow> \<not> schemaOk schema"
  using createSchema_Inr [of schema] by (cases "createSchema schema") auto

lemma tableBad_not_Ok: "tableBad validTypes table \<Longrightarrow> \<not> tableOk table"
  by (auto simp: tableBad_def tableOk_def fieldOk_def fieldTypeOutside_def isObject_def
      split: jsval.splits)

lemma schemaBad_not_Ok: "schemaBad validTypes schema \<Longrightarrow> \<not> schemaOk schema"
  by (auto simp: schemaBad_def schemaOk_def dest: tableBad_not_Ok)

text \<open>
  Claim C5 as stated fails: a schema whose only deviation from the accepted shape is a field
  of type \<open>json\<close> satisfies the claim's condition, and \<open>createSchema\<close> throws on it,
  because \<open>validTypes\<close> holds \<open>string\<close>, \<open>boolean\<close> and \<open>number\<close> only.
\<close>

theorem createSchema_json_counterexample:
  "tablesDeclare claimedTypes (notesSchema (js ''p1'') (js ''json'')) \<and>
   createSchema (notesSchema (js ''p1'') (js ''json'')) =
     Inl (InvalidFieldType (js ''notes'') (js ''tags''))"
  by (simp add: tablesDeclare_def declaresFields_def fieldTypeOutside_def claimedTypes_def
      createSchema_def checkTable_def checkField_def notesSchema_def js_def isObject_def
      validTypes_def trim_def isWhiteSpace_def)

text \<open>
  Claim C5, amended: \<open>createSchema\<close> returns its argument unchanged for every schema with a
  non-blank string project id, a numeric version and at least one table, whose tables each
  declare a non-empty fields map in which every field is an object with a type in
  \<open>{string, boolean, number}\<close> and an absent or boolean \<open>indexed\<close>; and it throws for every
  schema with a table that has no fields map or a field type outside
  \<open>{string, boolean, number}\<close>.  The function touches no network or storage state.
\<close>

theorem createSchema_accepts_and_rejects:
  "(schemaOk schema \<longrightarrow> createSchema schema = Inr schema) \<and>
   (schemaBad validTypes schema \<longrightarrow> isl (createSchema schema))"
  by (auto simp: createSchema_Inr createSchema_isl dest: schemaBad_not_Ok)

theorem createSchema_accepts_and_rejects_witness:
  "createSchema (notesSchema (js ''p1'') (js ''number'')) =
     Inr (notesSchema (js ''p1'') (js ''number'')) \<and>
   isl (createSchema (notesSchema (js ''p1'') (js ''json''))) \<and>
   isl (createSchema noFieldsSchema)"
proof -
  have ok: "schemaOk (notesSchema (js ''p1'') (js ''number''))"
    by (simp add: schemaOk_def tableOk_def fieldOk_def notesSchema_def js_def isObject_def
        validTypes_def trim_def isWhiteSpace_def)
  have bad: "schemaBad validTypes (notesSchema (js ''p1'') (js ''json''))"
    by (simp add: schemaBad_def tableBad_def fieldTypeOutside_def notesSchema_def js_def
        validTypes_def)
  have nofields: "schemaBad validTypes noFieldsSchema"
    by (simp add: schemaBad_def tableBad_def noFieldsSchema_def js_def)
  show ?thesis
    using createSchema_accepts_and_rejects [of "notesSchema (js ''p1'') (js ''number'')"]
      createSchema_accepts_and_rejects [of "notesSchema (js ''p1'') (js ''json'')"]
      createSchema_accepts_and_rejects [of noFieldsSchema] ok bad nofields
    by simp
qed

section \<open>Base64: the round trip\<close>

lemma b64value_b64char: "n < 64 \<Longrightarrow> b64value (b64char n) = Some n"
  by (auto simp: b64value_def b64char_def)

lemma b64char_not_pad: "b64char n \<noteq> 61"
  by (auto simp: b64char_def)

lemma b64char_not_whitespace: "\<not> isAsciiWhitespace (b64char n)"
  by (auto simp: b64char_def isAsciiWhitespace_def)

lemma sextet_bounds:
  fixes a b c :: nat
  assumes "a < 256" "b < 256" "c < 256"
  shows "a div 4 < 64" "(a mod 4) * 16 + b div 16 < 64" "(b mod 16) * 4 + c div 64 < 64"
    "c mod 64 < 64" "(b mod 16) * 4 < 64" "(a mod 4) * 16 < 64"
proof -
  have a4: "a mod 4 < 4" and b16: "b mod 16 < 16" by simp_all
  have bd: "b div 16 < 16" and cd: "c div 64 < 4"
    using assms by (simp_all add: less_mult_imp_div_less)
  show "a div 4 < 64" using assms by (simp add: less_mult_imp_div_less)
  show "(a mod 4) * 16 + b div 16 < 64" using a4 bd by linarith
  show "(b mod 16) * 4 + c div 64 < 64" using b16 cd by linarith
  show "c mod 64 < 64" by simp
  show "(b mod 16) * 4 < 64" using b16 by linarith
  show "(a mod 4) * 16 < 64" using a4 by linarith
qed

lemma sextets_lt: "\<forall>c \<in> set bs. c < 256 \<Longrightarrow> \<forall>n \<in> set (sextets bs). n < 64"
proof (induction bs rule: sextets.induct)
  case (1 a b c rest)
  then have lt: "a < 256" "b < 256" "c < 256" by simp_all
  from 1 have "\<forall>n \<in> set (sextets rest). n < 64" by simp
  then show ?case using sextet_bounds [OF lt] by simp
next
  case (2 a b)
  then have lt: "a < 256" "b < 256" by simp_all
  show ?case using sextet_bounds [OF lt lt(2)] by simp
next
  case (3 a)
  then have lt: "a < 256" by simp
  show ?case using sextet_bounds [OF lt lt lt] by simp
next
  case 4
  show ?case by simp
qed

lemma octet_rebuild:
  fixes a b c :: nat
  assumes "b < 256" "c < 256"
  shows "a div 4 * 4 + ((a mod 4) * 16 + b div 16) div 16 = a"
    "(((a mod 4) * 16 + b div 16) mod 16) * 16 + ((b mod 16) * 4 + c div 64) div 4 = b"
    "(((b mod 16) * 4 + c div 64) mod 4) * 64 + c mod 64 = c"
    "(((a mod 4) * 16 + b div 16) mod 16) * 16 + ((b mod 16) * 4) div 4 = b"
proof -
  have bd: "b div 16 < 16" and cd: "c div 64 < 4"
    using assms by (simp_all add: less_mult_imp_div_less)
  have e1: "((a mod 4) * 16 + b div 16) div 16 = a mod 4" using bd by simp
  have e2: "((a mod 4) * 16 + b div 16) mod 16 = b div 16" using bd by simp
  have e3: "((b mod 16) * 4 + c div 64) div 4 = b mod 16" using cd by simp
  have e4: "((b mod 16) * 4 + c div 64) mod 4 = c div 64" using cd by simp
  show "a div 4 * 4 + ((a mod 4) * 16 + b div 16) div 16 = a" by (simp add: e1)
  show "(((a mod 4) * 16 + b div 16) mod 16) * 16 + ((b mod 16) * 4 + c div 64) div 4 = b"
    using bd by (simp add: e3)
  show "(((b mod 16) * 4 + c div 64) mod 4) * 64 + c mod 64 = c" using cd by simp
  show "(((a mod 4) * 16 + b div 16) mod 16) * 16 + ((b mod 16) * 4) div 4 = b"
    using bd by simp
qed

lemma octet_rebuild_one: "a div 4 * 4 + ((a mod 4) * 16) div 16 = (a::nat)"
  by simp

lemma octets_sextets: "\<forall>c \<in> set bs. c < 256 \<Longrightarrow> octets (sextets bs) = bs"
proof (induction bs rule: sextets.induct)
  case (1 a b c rest)
  then have lt: "b < 256" "c < 256" by simp_all
  from 1 have ih: "octets (sextets rest) = rest" by simp
  show ?case
    by (simp only: sextets.simps octets.simps append_Cons append_Nil octet_rebuild [OF lt] ih)
next
  case (2 a b)
  then have lt: "b < 256" by simp
  show ?case
    by (simp only: sextets.simps octets.simps append_Cons append_Nil octet_rebuild [OF lt lt])
next
  case (3 a)
  show ?case
    by (simp only: sextets.simps octets.simps octet_rebuild_one)
next
  case 4
  show ?case by simp
qed

lemma length_sextets:
  "length (sextets bs) =
     4 * (length bs div 3) + (if length bs mod 3 = 0 then 0 else length bs mod 3 + 1)"
proof (induction bs rule: sextets.induct)
  case (1 a b c rest)
  have d: "length (a # b # c # rest) div 3 = length rest div 3 + 1"
    and m: "length (a # b # c # rest) mod 3 = length rest mod 3"
    by simp_all
  have "length (sextets (a # b # c # rest)) = 4 + length (sextets rest)" by simp
  then show ?case unfolding d m using 1 by simp
qed simp_all

lemma length_sextets_mod:
  "length (sextets bs) mod 4 = (if length bs mod 3 = 0 then 0 else length bs mod 3 + 1)"
proof -
  have "length bs mod 3 < 3" by simp
  then have "(if length bs mod 3 = 0 then 0 else length bs mod 3 + 1) < 4" by simp
  then show ?thesis by (simp add: length_sextets)
qed

lemma those_b64: "\<forall>n \<in> set ns. n < 64 \<Longrightarrow> those (map b64value (map b64char ns)) = Some ns"
  by (induction ns) (simp_all add: b64value_b64char)

lemma stripPadding_padded:
  assumes "61 \<notin> set xs" and "(length xs + p) mod 4 = 0" and "p \<le> 2"
  shows "stripPadding (xs @ replicate p 61) = xs"
proof -
  consider "p = 0" | "p = 1" | "p = 2" using assms(3) by linarith
  then show ?thesis
  proof cases
    case 1
    have a: "drop (length xs - 2) xs \<noteq> [61, 61]"
    proof
      assume "drop (length xs - 2) xs = [61, 61]"
      then have "61 \<in> set (drop (length xs - 2) xs)" by simp
      then show False using assms(1) by (meson in_set_dropD)
    qed
    have b: "drop (length xs - 1) xs \<noteq> [61]"
    proof
      assume "drop (length xs - 1) xs = [61]"
      then have "61 \<in> set (drop (length xs - 1) xs)" by simp
      then show False using assms(1) by (meson in_set_dropD)
    qed
    show ?thesis using 1 a b by (simp add: stripPadding_def)
  next
    case 2
    then have ne: "xs \<noteq> []" using assms(2) by auto
    then obtain ys y where xs: "xs = ys @ [y]" by (metis rev_exhaust)
    then have y: "y \<noteq> 61" using assms(1) by auto
    show ?thesis using 2 assms(2) y by (simp add: stripPadding_def xs)
  next
    case 3
    then show ?thesis using assms(2) by (simp add: stripPadding_def numeral_2_eq_2)
  qed
qed

lemma length_btoa_mod:
  "(length (map b64char (sextets s)) + (3 - length s mod 3) mod 3) mod 4 = 0"
proof -
  have "length s mod 3 < 3" by simp
  then consider "length s mod 3 = 0" | "length s mod 3 = 1" | "length s mod 3 = 2"
    by linarith
  then show ?thesis
  proof cases
    case 1
    then show ?thesis by (simp add: length_sextets)
  next
    case 2
    then show ?thesis by (simp add: length_sextets)
  next
    case 3
    then show ?thesis by (simp add: length_sextets)
  qed
qed

lemma filter_whitespace_btoa:
  "filter (\<lambda>c. \<not> isAsciiWhitespace c) (map b64char ns @ replicate p 61) =
     map b64char ns @ replicate p 61"
proof -
  have "\<not> isAsciiWhitespace 61" by (simp add: isAsciiWhitespace_def)
  then have "\<forall>c \<in> set (map b64char ns @ replicate p 61). \<not> isAsciiWhitespace c"
    using b64char_not_whitespace by auto
  then show ?thesis by (simp only: filter_id_conv)
qed

lemma atob_btoa:
  assumes "\<forall>c \<in> set s. c < 256"
  shows "\<exists>e. btoa s = Some e \<and> atob e = Some s \<and> (e = [] \<longleftrightarrow> s = [])"
proof -
  let ?xs = "map b64char (sextets s)"
  let ?p = "(3 - length s mod 3) mod 3"
  have "\<not> (\<exists>c \<in> set s. 255 < c)" using assms by fastforce
  then have b: "btoa s = Some (?xs @ replicate ?p 61)"
    by (simp only: btoa_def if_False)
  have nopad: "61 \<notin> set ?xs" using b64char_not_pad by auto
  have p2: "?p \<le> 2" by simp
  have strip: "stripPadding (?xs @ replicate ?p 61) = ?xs"
    by (rule stripPadding_padded [OF nopad length_btoa_mod p2])
  have l1: "length ?xs mod 4 \<noteq> 1"
    using length_sextets_mod [of s] by (simp split: if_splits)
  have "those (map b64value ?xs) = Some (sextets s)"
    by (rule those_b64) (rule sextets_lt [OF assms])
  then have th: "those (map (b64value \<circ> b64char) (sextets s)) = Some (sextets s)"
    by simp
  have "atob (?xs @ replicate ?p 61) = Some s"
    unfolding atob_def filter_whitespace_btoa strip Let_def
    using l1 by (simp add: th octets_sextets [OF assms])
  moreover have "(?xs @ replicate ?p 61 = []) \<longleftrightarrow> s = []"
    by (cases s rule: sextets.cases) simp_all
  ultimately show ?thesis using b by simp
qed

section \<open>storageAdapter: results\<close>

text \<open>
  Claim C9 as stated fails for the empty string, which is a Latin-1 value: \<open>btoa\<close>
  encodes it as the empty string, and \<open>getItem\<close> treats a falsy stored string as
  absent and returns \<open>null\<close>.
\<close>

theorem storage_empty_value_counterexample:
  "platformOS (tableEnv Web 0 noServer []) = Web \<and>
   getItem (tableEnv Web 0 noServer []) (js ''k'')
     (setItem (tableEnv Web 0 noServer []) (js ''k'') [] emptyWorld) = None"
  by (simp add: tableEnv_def getItem_def setItem_def btoa_def emptyWorld_def)

text \<open>
  Claim C9, amended: on the web platform, for every key and every non-empty value whose
  code units are all below 256, \<open>getItem\<close> after \<open>setItem\<close> returns exactly the value;
  \<open>getItem\<close> returns \<open>null\<close> for a key that \<open>localStorage\<close> does not hold, for a
  key just deleted, and for a key just set to the empty string.
\<close>

theorem storage_roundtrip_web:
  assumes "platformOS E = Web" and "\<forall>c \<in> set v. c < 256" and "v \<noteq> []"
  shows "getItem E key (setItem E key v w) = Some v \<and>
         (localStorage w key = None \<longrightarrow> getItem E key w = None) \<and>
         getItem E key (deleteItem E key w) = None \<and>
         getItem E key (setItem E key [] w) = None"
proof -
  from atob_btoa [OF assms(2)] obtain e
    where e: "btoa v = Some e" "atob e = Some v" "e \<noteq> []"
    using assms(3) by auto
  have "getItem E key (setItem E key v w) = Some v"
    using assms(1) e by (simp add: getItem_def setItem_def)
  moreover have "localStorage w key = None \<longrightarrow> getItem E key w = None"
    using assms(1) by (simp add: getItem_def)
  moreover have "getItem E key (deleteItem E key w) = None"
    using assms(1) by (simp add: getItem_def deleteItem_def)
  moreover have "getItem E key (setItem E key [] w) = None"
    using assms(1) by (simp add: getItem_def setItem_def btoa_def)
  ultimately show ?thesis by simp
qed

theorem storage_roundtrip_web_witness:
  "getItem (tableEnv Web 0 noServer []) (js ''k'')
     (setItem (tableEnv Web 0 noServer []) (js ''k'') (js ''ab'') emptyWorld) = Some (js ''ab'') \<and>
   getItem (tableEnv Web 0 noServer []) (js ''k'') emptyWorld = None \<and>
   getItem (tableEnv Web 0 noServer []) (js ''k'')
     (deleteItem (tableEnv Web 0 noServer []) (js ''k'') emptyWorld) = None \<and>
   getItem (tableEnv Web 0 noServer []) (js ''k'')
     (setItem (tableEnv Web 0 noServer []) (js ''k'') [] (deleteItem (tableEnv Web 0 noServer []) (js ''k'') emptyWorld)) = None"
proof -
  have os: "platformOS (tableEnv Web 0 noServer []) = Web"
    by (simp add: tableEnv_def)
  have latin: "\<forall>c \<in> set (js ''ab''). c < 256" and ne: "js ''ab'' \<noteq> []"
    by (simp_all add: js_def)
  have absent: "localStorage emptyWorld (js ''k'') = None"
    by (simp add: emptyWorld_def)
  show ?thesis
    using storage_roundtrip_web [OF os latin ne, of "js ''k''" emptyWorld]
      storage_roundtrip_web [OF os latin ne, of "js ''k''"
        "deleteItem (tableEnv Web 0 noServer []) (js ''k'') emptyWorld"] absent
    by simp
qed

section \<open>The session operations: results\<close>

lemma setItem_requests [simp]: "requests (setItem E k v w) = requests w"
  by (simp add: setItem_def split: OS.splits option.splits)

lemma setItem_ref [simp]: "refreshAccessTokenRef (setItem E k v w) = refreshAccessTokenRef w"
  by (simp add: setItem_def split: OS.splits option.splits)

lemma setItem_authState [simp]: "authState (setItem E k v w) = authState w"
  by (simp add: setItem_def split: OS.splits option.splits)

lemma storeTokens_requests: "requests (snd (storeTokens E tokenData w)) = requests w"
  by (simp add: storeTokens_def)

lemma fetch_requests: "requests (snd (fetch E req w)) = requests w @ [req]"
  by (simp add: fetch_def)

lemma refreshAccessToken_requests:
  "requests (snd (refreshAccessToken E rt w)) = requests w @ [refreshRequest E rt]"
  by (simp add: refreshAccessToken_def fetch_def storeTokens_def
      split: fetch_result.splits option.splits)


lemma isTokenExpired_numeric:
  assumes "decodeJWT E tok = Obj claims" and "map_of claims (js ''exp'') = Some (Num e)"
    and "0 \<le> dateNow E"
  shows "isTokenExpired E tok \<longleftrightarrow> \<not> 300000 < e * 1000 - dateNow E"
proof (cases "e = 0")
  case True
  then show ?thesis using assms by (simp add: isTokenExpired_def)
next
  case False
  then show ?thesis using assms by (auto simp: isTokenExpired_def)
qed


lemma storage_keys_differ: "TOKEN_STORAGE_KEY \<noteq> USER_INFO_STORAGE_KEY"
  by (simp add: TOKEN_STORAGE_KEY_def USER_INFO_STORAGE_KEY_def js_def)

lemma signout_token_gone: "getItem E TOKEN_STORAGE_KEY (signout E w) = None"
  using storage_keys_differ
  by (cases "platformOS E") (simp_all add: getItem_def signout_def deleteItem_def)

lemma signout_user_gone: "getItem E USER_INFO_STORAGE_KEY (signout E w) = None"
  by (cases "platformOS E") (simp_all add: getItem_def signout_def deleteItem_def)

lemma signout_authState: "authState (signout E w) = signedOut"
  by (simp add: signout_def)

lemma signout_idem: "signout E (signout E w) = signout E w"
  by (cases "platformOS E") (simp_all add: signout_def deleteItem_def)

text \<open>
  On a native platform a failed login ends signed out with both secrets cleared: the
  \<open>catch\<close> block of \<open>login\<close> calls \<open>signout\<close>.
\<close>

lemma loginNative_failure_signs_out:
  assumes "fst (loginNative E result w) = Inl e"
  shows "getItem E TOKEN_STORAGE_KEY (snd (loginNative E result w)) = None \<and>
         getItem E USER_INFO_STORAGE_KEY (snd (loginNative E result w)) = None \<and>
         authState (snd (loginNative E result w)) = signedOut"
proof (cases result)
  case PromptRejected
  then show ?thesis
    by (simp add: loginNative_def signout_token_gone signout_user_gone signout_authState)
next
  case (PromptSuccess code)
  obtain r w1 where h: "handleLoginCode E code w = (r, w1)"
    by (cases "handleLoginCode E code w")
  show ?thesis
    using assms PromptSuccess h
    by (cases r)
      (simp_all add: loginNative_def signout_token_gone signout_user_gone signout_authState)
next
  case PromptOther
  then show ?thesis using assms by (simp add: loginNative_def)
qed

text \<open>
  Claim C6: after \<open>signout\<close> neither the token secret nor the user-info secret can be
  read from the store, the auth state is the signed-out one, the token accessor (and the
  \<open>getToken\<close> closure built on it) rejects with the error
  \<open>No tokens found - user not signed in\<close> and changes nothing, and a second \<open>signout\<close>
  leaves the same state.
\<close>

theorem signout_clears_secrets:
  "getItem E TOKEN_STORAGE_KEY (signout E w) = None \<and>
   getItem E USER_INFO_STORAGE_KEY (signout E w) = None \<and>
   authState (signout E w) = signedOut \<and>
   fetchToken E (signout E w) = (Inl NoTokensFound, signout E w) \<and>
   getToken E (signout E w) = (Inl NoTokensFound, signout E w) \<and>
   signout E (signout E w) = signout E w"
proof -
  have f: "fetchToken E (signout E w) = (Inl NoTokensFound, signout E w)"
    by (simp add: fetchToken_def signout_token_gone)
  have g: "getToken E (signout E w) = (Inl NoTokensFound, signout E w)"
    by (simp add: getToken_def f)
  show ?thesis
    using signout_token_gone [of E w] signout_user_gone [of E w] signout_authState [of E w]
      signout_idem [of E w] f g
    by simp
qed

lemmas sample_defs =
  sampleEnv_def tableEnv_def sampleTable_def jsq_def js_def tokensText_def tokensValue_def
  tokenResponseText_def tokenResponseValue_def jwtExp2000_def jwtNoExp_def jwtExpSoon_def
  tokenServer_def
  storedWorld_def emptyWorld_def signedOut_def TOKEN_STORAGE_KEY_def USER_INFO_STORAGE_KEY_def
  tokenEndpoint_def userInfoEndpoint_def OAUTH_STATE_KEY_def

lemma replicate_two: "replicate 2 x = [x, x]"
  by (simp add: numeral_2_eq_2)

lemmas base64_defs =
  atob_def btoa_def isAsciiWhitespace_def stripPadding_def b64value_def b64char_def
  replaceAll_def replicate_two

lemma sample_decode_exp:
  "decodeJWT (sampleEnv os t) (Str jwtExp2000) = Obj [(js ''exp'', Num 2000)]"
  by (simp add: decodeJWT_def decodeJWT_try_def sample_defs base64_defs)

lemma sample_try_garbage: "decodeJWT_try (sampleEnv os t) (js ''garbage'') = None"
  by (simp add: decodeJWT_try_def sample_defs)

lemma sample_try_noexp:
  "decodeJWT_try (sampleEnv os t) jwtNoExp = Some (Obj [(js ''sub'', Str (js ''u1''))])"
  by (simp add: decodeJWT_try_def sample_defs base64_defs)

lemma sample_getItem_native:
  "getItem (sampleEnv Native t) TOKEN_STORAGE_KEY (storedWorld Native a) =
     Some (tokensText a (js ''r1''))"
  by (simp add: getItem_def setItem_def storedWorld_def sampleEnv_def tableEnv_def)

lemma sample_parse_exp:
  "JSON_parse (sampleEnv os t) (tokensText jwtExp2000 (js ''r1'')) =
     Some (Obj [(js ''accessToken'', Str jwtExp2000), (js ''refreshToken'', Str (js ''r1''))])"
  by (simp add: sample_defs)

lemma sample_parse_garbage:
  "JSON_parse (sampleEnv os t) (tokensText (js ''garbage'') (js ''r1'')) =
     Some (Obj [(js ''accessToken'', Str (js ''garbage'')), (js ''refreshToken'', Str (js ''r1''))])"
  by (simp add: sample_defs)

lemma sample_parse_noexp:
  "JSON_parse (sampleEnv os t) (tokensText jwtNoExp (js ''r1'')) =
     Some (Obj [(js ''accessToken'', Str jwtNoExp), (js ''refreshToken'', Str (js ''r1''))])"
  by (simp add: sample_defs)

lemma sample_server:
  "server (sampleEnv os t) h (refreshRequest (sampleEnv os t) rt) =
     Responded \<lparr>ok = True, status = 200, bodyText = tokenResponseText (js ''a2'') (js ''r2'')\<rparr>"
  by (simp add: sampleEnv_def tableEnv_def tokenServer_def refreshRequest_def)

lemma sample_parse_response:
  "JSON_parse (sampleEnv os t) (tokenResponseText (js ''a2'') (js ''r2'')) =
     Some (tokenResponseValue (js ''a2'') (js ''r2''))"
  by (simp add: sample_defs)



text \<open>
  Claim C10: for a token string that does not decode (a step of \<open>decodeJWT\<close> throws) or
  whose decoded payload has no \<open>exp\<close>, \<open>decodeJWT\<close> returns \<open>null\<close> instead of throwing
  in the first case, \<open>isTokenExpired\<close> is true, and the token accessor of a mounted
  provider does not return the stored token: its outcome is that of the refresh, whose
  request it issues.
\<close>

theorem undecodable_token_refreshes:
  assumes bad: "case decodeJWT_try E t of
                  None \<Rightarrow> True
                | Some decoded \<Rightarrow> getProp decoded (js ''exp'') = Undefined"
    and ref: "refreshAccessTokenRef w = RefreshAccessToken"
    and stored: "getItem E TOKEN_STORAGE_KEY w = Some storedTokens" "storedTokens \<noteq> []"
    and parsed: "JSON_parse E storedTokens = Some (Obj kvs)"
    and tok: "map_of kvs (js ''accessToken'') = Some (Str t)"
  shows "(decodeJWT_try E t = None \<longrightarrow> decodeJWT E (Str t) = Null) \<and>
         isTokenExpired E (Str t) \<and>
         fetchToken E w = refreshAccessToken E (getProp (Obj kvs) (js ''refreshToken'')) w \<and>
         requests (snd (fetchToken E w)) =
           requests w @ [refreshRequest E (getProp (Obj kvs) (js ''refreshToken''))]"
proof -
  have n: "decodeJWT_try E t = None \<longrightarrow> decodeJWT E (Str t) = Null"
    by (simp add: decodeJWT_def)
  have ex: "isTokenExpired E (Str t)"
  proof (cases "decodeJWT_try E t")
    case None
    then show ?thesis by (simp add: isTokenExpired_def decodeJWT_def)
  next
    case (Some decoded)
    then have "getProp (decodeJWT E (Str t)) (js ''exp'') = Undefined"
      using bad by (simp add: decodeJWT_def)
    then show ?thesis by (simp add: isTokenExpired_def Let_def)
  qed
  have at: "getProp (Obj kvs) (js ''accessToken'') = Str t" using tok by simp
  have eq: "fetchToken E w = refreshAccessToken E (getProp (Obj kvs) (js ''refreshToken'')) w"
    using stored parsed ref ex
    by (simp add: fetchToken_def at callRefreshRef_def del: getProp.simps)
  show ?thesis
    using n ex by (simp only: eq refreshAccessToken_requests simp_thms)
qed

theorem undecodable_token_refreshes_witness:
  "decodeJWT (sampleEnv Native 0) (Str (js ''garbage'')) = Null \<and>
   isTokenExpired (sampleEnv Native 0) (Str (js ''garbage'')) \<and>
   requests (snd (fetchToken (sampleEnv Native 0) (storedWorld Native (js ''garbage'')))) =
     [refreshRequest (sampleEnv Native 0) (Str (js ''r1''))] \<and>
   isTokenExpired (sampleEnv Native 0) (Str jwtNoExp) \<and>
   requests (snd (fetchToken (sampleEnv Native 0) (storedWorld Native jwtNoExp))) =
     [refreshRequest (sampleEnv Native 0) (Str (js ''r1''))]"
proof -
  let ?E = "sampleEnv Native 0"
  let ?w = "storedWorld Native (js ''garbage'')"
  let ?kvs = "[(js ''accessToken'', Str (js ''garbage'')), (js ''refreshToken'', Str (js ''r1''))]"
  let ?w2 = "storedWorld Native jwtNoExp"
  let ?kvs2 = "[(js ''accessToken'', Str jwtNoExp), (js ''refreshToken'', Str (js ''r1''))]"
  have bad: "case decodeJWT_try ?E (js ''garbage'') of
               None \<Rightarrow> True
             | Some decoded \<Rightarrow> getProp decoded (js ''exp'') = Undefined"
    by (simp add: sample_try_garbage)
  have bad2: "case decodeJWT_try ?E jwtNoExp of
               None \<Rightarrow> True
             | Some decoded \<Rightarrow> getProp decoded (js ''exp'') = Undefined"
    by (simp add: sample_try_noexp js_def)
  have ref: "refreshAccessTokenRef (storedWorld Native a) = RefreshAccessToken" for a
    by (simp add: storedWorld_def emptyWorld_def)
  have ne: "tokensText a (js ''r1'') \<noteq> []" for a
    by (simp add: tokensText_def jsq_def)
  have tok: "map_of ?kvs (js ''accessToken'') = Some (Str (js ''garbage''))"
    and tok2: "map_of ?kvs2 (js ''accessToken'') = Some (Str jwtNoExp)"
    by simp_all
  have rt: "getProp (Obj ?kvs) (js ''refreshToken'') = Str (js ''r1'')"
    and rt2: "getProp (Obj ?kvs2) (js ''refreshToken'') = Str (js ''r1'')"
    by (simp_all add: js_def)
  have reqs: "requests (storedWorld Native a) = []" for a
    by (simp add: storedWorld_def emptyWorld_def)
  note inst = undecodable_token_refreshes [OF bad ref sample_getItem_native ne sample_parse_garbage tok]
  note inst2 = undecodable_token_refreshes [OF bad2 ref sample_getItem_native ne sample_parse_noexp tok2]
  from inst have a: "decodeJWT ?E (Str (js ''garbage'')) = Null"
    using sample_try_garbage [of Native 0] by simp
  from inst have b: "isTokenExpired ?E (Str (js ''garbage''))"
    by blast
  from inst have "requests (snd (fetchToken ?E ?w)) =
      requests ?w @ [refreshRequest ?E (getProp (Obj ?kvs) (js ''refreshToken''))]"
    by blast
  then have c: "requests (snd (fetchToken ?E ?w)) = [refreshRequest ?E (Str (js ''r1''))]"
    by (simp only: rt reqs append_Nil)
  from inst2 have d: "isTokenExpired ?E (Str jwtNoExp)"
    by blast
  from inst2 have "requests (snd (fetchToken ?E ?w2)) =
      requests ?w2 @ [refreshRequest ?E (getProp (Obj ?kvs2) (js ''refreshToken''))]"
    by blast
  then have e: "requests (snd (fetchToken ?E ?w2)) = [refreshRequest ?E (Str (js ''r1''))]"
    by (simp only: rt2 reqs append_Nil)
  show ?thesis using a b c d e by simp
qed

text \<open>
  Claim C3 (the body of the refresh request): the request that \<open>refreshAccessToken\<close>
  sends to the token endpoint carries \<open>grant_type\<close> \<open>refresh_token\<close> and the client id,
  but the refresh token travels in the field \<open>code\<close>: the body has no \<open>refresh_token\<close>
  field and no \<open>redirect_uri\<close>.
\<close>

theorem refresh_request_body:
  "requests (snd (refreshAccessToken E rt w)) = requests w @ [refreshRequest E rt] \<and>
   url (refreshRequest E rt) = tokenEndpoint \<and>
   getProp (body (refreshRequest E rt)) (js ''grant_type'') = Str (js ''refresh_token'') \<and>
   getProp (body (refreshRequest E rt)) (js ''code'') = rt \<and>
   getProp (body (refreshRequest E rt)) (js ''client_id'') = Str (project_id E) \<and>
   getProp (body (refreshRequest E rt)) (js ''refresh_token'') = Undefined \<and>
   getProp (body (refreshRequest E rt)) (js ''redirect_uri'') = Undefined"
  by (simp add: refreshAccessToken_requests) (simp add: refreshRequest_def js_def)

lemma oauthCallback_mismatch:
  "state \<noteq> sessionStorage w OAUTH_STATE_KEY \<Longrightarrow>
   oauthCallback E pathIsCallback code state w = (Inr (), w)"
  by (simp add: oauthCallback_def split: option.splits)

lemma sample_state:
  "sessionStorage (loginWeb [1, 2, 3, 4, 5] emptyWorld) OAUTH_STATE_KEY = Some (js ''0102030405'')"
  by (simp add: loginWeb_def generateRandomState_def hexDigit_def js_def)

text \<open>
  Claim C4 (a callback whose state differs from the stored one): with the stored state
  \<open>0102030405\<close> and the callback state \<open>s1\<close>, the callback branch does nothing: no
  request is issued and nothing is stored, and it also raises no error.
\<close>

theorem state_mismatch_ignored:
  "oauthCallback (sampleEnv Web 0) True (Some (js ''c1'')) (Some (js ''s1''))
     (loginWeb [1, 2, 3, 4, 5] emptyWorld) =
   (Inr (), loginWeb [1, 2, 3, 4, 5] emptyWorld)"
proof -
  have "Some (js ''s1'') \<noteq> sessionStorage (loginWeb [1, 2, 3, 4, 5] emptyWorld) OAUTH_STATE_KEY"
    unfolding sample_state by (simp add: js_def)
  then show ?thesis by (rule oauthCallback_mismatch)
qed

text \<open>
  Claim C7 (a login that fails part-way): on the web, when the code exchange succeeds and
  the user-info request is answered with 401, \<open>handleLoginCode\<close> throws after
  \<open>storeTokens\<close>, and nothing signs out: the token pair stays in the store with no user
  info beside it, while the auth state is still the signed-out one.
\<close>

theorem web_login_failure_keeps_tokens:
  "fst (oauthCallback (sampleEnv Web 0) True (Some (js ''c1'')) (Some (js ''0102030405''))
          (loginWeb [1, 2, 3, 4, 5] emptyWorld)) = Inl UserInfoFailed \<and>
   getItem (sampleEnv Web 0) TOKEN_STORAGE_KEY
     (snd (oauthCallback (sampleEnv Web 0) True (Some (js ''c1'')) (Some (js ''0102030405''))
             (loginWeb [1, 2, 3, 4, 5] emptyWorld))) = Some (tokensText (js ''a2'') (js ''r2'')) \<and>
   getItem (sampleEnv Web 0) USER_INFO_STORAGE_KEY
     (snd (oauthCallback (sampleEnv Web 0) True (Some (js ''c1'')) (Some (js ''0102030405''))
             (loginWeb [1, 2, 3, 4, 5] emptyWorld))) = None \<and>
   authState
     (snd (oauthCallback (sampleEnv Web 0) True (Some (js ''c1'')) (Some (js ''0102030405''))
             (loginWeb [1, 2, 3, 4, 5] emptyWorld))) = signedOut"
  by (simp add: oauthCallback_def handleLoginCode_def fetch_def storeTokens_def
      exchangeRequest_def userInfoRequest_def getItem_def setItem_def loginWeb_def
      generateRandomState_def hexDigit_def sample_defs base64_defs)

section \<open>Concurrent calls of the token accessor: results\<close>

text \<open>
  The segments compose to the operations as written: one call stepped three times on its
  own is \<open>fetchToken\<close>.
\<close>

lemma refreshAccessToken_segments:
  "refreshAccessToken E rt w =
     (case fetch E (refreshRequest E rt) w of (res, w1) \<Rightarrow> refreshDeliver E res w1)"
  by (simp add: refreshAccessToken_def refreshDeliver_def fetch_def split: fetch_result.splits)

lemma fetchToken_segments:
  "(case stepTask E Started w of (t1, w1) \<Rightarrow>
      case stepTask E t1 w1 of (t2, w2) \<Rightarrow> stepTask E t2 w2) =
   (Done (fst (fetchToken E w)), snd (fetchToken E w))"
  by (simp add: stepTask_def fetchTokenResume_def fetchToken_def callRefreshRef_def
      refreshAccessToken_segments fetch_def
      split: option.splits refresh_ref.splits prod.splits)

lemma pass_append:
  "pass E (xs @ ys) w =
     (case pass E xs w of (xs1, w1) \<Rightarrow> case pass E ys w1 of (ys1, w2) \<Rightarrow> (xs1 @ ys1, w2))"
  by (induction xs arbitrary: w) (simp_all split: prod.splits)

lemma length_pass: "length (fst (pass E ts w)) = length ts"
proof (induction ts arbitrary: w)
  case Nil
  show ?case by simp
next
  case (Cons t ts)
  obtain t1 w1 where st: "stepTask E t w = (t1, w1)" by (cases "stepTask E t w")
  obtain ts1 w2 where p: "pass E ts w1 = (ts1, w2)" by (cases "pass E ts w1")
  have "length ts1 = length ts" using Cons [of w1] by (simp add: p)
  then show ?case by (simp add: st p)
qed

lemma run_append: "run E (xs @ ys) s = run E ys (run E xs s)"
  by (simp add: run_def)

lemma run_upt:
  "n \<le> length ts \<Longrightarrow>
   run E [0..<n] (ts, w) = (fst (pass E (take n ts) w) @ drop n ts, snd (pass E (take n ts) w))"
proof (induction n)
  case 0
  show ?case by (simp add: run_def)
next
  case (Suc n)
  then have n: "n < length ts" by simp
  obtain ps w1 where p: "pass E (take n ts) w = (ps, w1)" by (cases "pass E (take n ts) w")
  have lp: "length ps = n" using length_pass [of E "take n ts" w] n by (simp add: p)
  obtain t1 w2 where st: "stepTask E (ts ! n) w1 = (t1, w2)" by (cases "stepTask E (ts ! n) w1")
  have ih: "run E [0..<n] (ts, w) = (ps @ drop n ts, w1)"
    using Suc n by (simp add: p)
  have nth: "(ps @ drop n ts) ! n = ts ! n"
    using n lp by (simp add: nth_append)
  have upd: "(ps @ drop n ts)[n := t1] = (ps @ [t1]) @ drop (Suc n) ts"
    using n lp by (simp add: list_update_append Cons_nth_drop_Suc [symmetric])
  have lhs: "run E [0..<Suc n] (ts, w) = ((ps @ [t1]) @ drop (Suc n) ts, w2)"
    using n lp by (simp add: run_append ih) (simp add: run_def stepAt_def nth st upd)
  have "pass E (take (Suc n) ts) w = (ps @ [t1], w2)"
    using n by (simp add: take_Suc_conv_app_nth pass_append p st)
  then show ?case using lhs by simp
qed

lemma run_all: "run E [0..<length ts] (ts, w) = pass E ts w"
  using run_upt [of "length ts" ts E w] by simp

lemma pass_started:
  "pass E (replicate n Started) w = (replicate n (GotStored (getItem E TOKEN_STORAGE_KEY w)), w)"
  by (induction n) (simp_all add: stepTask_def)

lemma resume_expired:
  assumes "stored \<noteq> []" and "JSON_parse E stored = Some parsed"
    and "parsed \<noteq> Null" and "parsed \<noteq> Undefined"
    and "isTokenExpired E (getProp parsed (js ''accessToken''))"
    and "refreshAccessTokenRef w = RefreshAccessToken"
  shows "stepTask E (GotStored (Some stored)) w =
     (Awaiting (server E (requests w) (refreshRequest E (getProp parsed (js ''refreshToken'')))),
      w\<lparr>requests := requests w @ [refreshRequest E (getProp parsed (js ''refreshToken''))]\<rparr>)"
  using assms by (simp add: stepTask_def fetchTokenResume_def fetch_def)

lemma pass_resume:
  assumes "stored \<noteq> []" and "JSON_parse E stored = Some parsed"
    and "parsed \<noteq> Null" and "parsed \<noteq> Undefined"
    and "isTokenExpired E (getProp parsed (js ''accessToken''))"
    and "refreshAccessTokenRef w = RefreshAccessToken"
  shows "pass E (replicate n (GotStored (Some stored))) w =
     (map (\<lambda>i. Awaiting (server E (requests w @ replicate i (refreshRequest E (getProp parsed (js ''refreshToken''))))
                               (refreshRequest E (getProp parsed (js ''refreshToken'')))))
        [0..<n],
      w\<lparr>requests := requests w @ replicate n (refreshRequest E (getProp parsed (js ''refreshToken'')))\<rparr>)"
  using assms(6)
proof (induction n arbitrary: w)
  case 0
  show ?case by simp
next
  case (Suc n)
  let ?req = "refreshRequest E (getProp parsed (js ''refreshToken''))"
  let ?w1 = "w\<lparr>requests := requests w @ [?req]\<rparr>"
  have st: "stepTask E (GotStored (Some stored)) w = (Awaiting (server E (requests w) ?req), ?w1)"
    by (rule resume_expired [OF assms(1-5) Suc.prems])
  have ref1: "refreshAccessTokenRef ?w1 = RefreshAccessToken" using Suc.prems by simp
  have ih: "pass E (replicate n (GotStored (Some stored))) ?w1 =
     (map (\<lambda>i. Awaiting (server E (requests ?w1 @ replicate i ?req) ?req)) [0..<n],
      ?w1\<lparr>requests := requests ?w1 @ replicate n ?req\<rparr>)"
    by (rule Suc.IH [OF ref1])
  have shift: "map (\<lambda>i. Awaiting (server E (requests w @ replicate i ?req) ?req)) [0..<Suc n] =
     Awaiting (server E (requests w) ?req) #
     map (\<lambda>i. Awaiting (server E (requests ?w1 @ replicate i ?req) ?req)) [0..<n]"
    by (simp add: upt_conv_Cons map_Suc_upt [symmetric] replicate_app_Cons_same del: upt_Suc)
  show ?case
    unfolding shift by (simp add: st ih replicate_app_Cons_same)
qed

lemma refreshDeliver_frame:
  "requests (snd (refreshDeliver E res w)) = requests w \<and>
   fst (refreshDeliver E res w) = fst (refreshDeliver E res w0)"
  by (simp add: refreshDeliver_def storeTokens_def split: fetch_result.splits option.splits)

lemma pass_deliver:
  "fst (pass E (map Awaiting rs) w) = map (\<lambda>res. Done (fst (refreshDeliver E res w0))) rs \<and>
   requests (snd (pass E (map Awaiting rs) w)) = requests w"
proof (induction rs arbitrary: w)
  case Nil
  show ?case by simp
next
  case (Cons res rs)
  obtain r w1 where d: "refreshDeliver E res w = (r, w1)" by (cases "refreshDeliver E res w")
  have f: "requests w1 = requests w" "r = fst (refreshDeliver E res w0)"
    using refreshDeliver_frame [of E res w w0] by (simp_all add: d)
  obtain ts1 w2 where p: "pass E (map Awaiting rs) w1 = (ts1, w2)"
    by (cases "pass E (map Awaiting rs) w1")
  have "ts1 = map (\<lambda>res. Done (fst (refreshDeliver E res w0))) rs" "requests w2 = requests w1"
    using Cons [of w1] by (simp_all add: p)
  then show ?case by (simp add: stepTask_def d p f)
qed

lemma refreshDeliver_success:
  assumes "ok r" and "JSON_parse E (bodyText r) = Some tokenData"
    and "tokenData \<noteq> Null" and "tokenData \<noteq> Undefined"
  shows "fst (refreshDeliver E (Responded r) w) = Inr (getProp tokenData (js ''access_token''))"
  using assms by (simp add: refreshDeliver_def storeTokens_def)

lemma run_sameTick_expired:
  assumes "getItem E TOKEN_STORAGE_KEY w = Some stored"
    and "stored \<noteq> []" and "JSON_parse E stored = Some parsed"
    and "parsed \<noteq> Null" and "parsed \<noteq> Undefined"
    and "isTokenExpired E (getProp parsed (js ''accessToken''))"
    and "refreshAccessTokenRef w = RefreshAccessToken"
  shows "fst (run E (sameTick n) (replicate n Started, w)) =
           map (\<lambda>i. Done (fst (refreshDeliver E
                  (server E (requests w @ replicate i (refreshRequest E (getProp parsed (js ''refreshToken''))))
                     (refreshRequest E (getProp parsed (js ''refreshToken'')))) w)))
             [0..<n] \<and>
         requests (snd (run E (sameTick n) (replicate n Started, w))) =
           requests w @ replicate n (refreshRequest E (getProp parsed (js ''refreshToken'')))"
proof -
  let ?req = "refreshRequest E (getProp parsed (js ''refreshToken''))"
  let ?rs = "map (\<lambda>i. server E (requests w @ replicate i ?req) ?req) [0..<n]"
  let ?w2 = "w\<lparr>requests := requests w @ replicate n ?req\<rparr>"
  have s1: "run E [0..<n] (replicate n Started, w) = (replicate n (GotStored (Some stored)), w)"
    using run_all [of E "replicate n Started" w] by (simp add: pass_started assms(1))
  have s2: "run E [0..<n] (replicate n (GotStored (Some stored)), w) = (map Awaiting ?rs, ?w2)"
    using run_all [of E "replicate n (GotStored (Some stored))" w]
    by (simp add: pass_resume [OF assms(2-7)] comp_def)
  have s3: "run E [0..<n] (map Awaiting ?rs, ?w2) = pass E (map Awaiting ?rs) ?w2"
    using run_all [of E "map Awaiting ?rs" ?w2] by simp
  have all: "run E (sameTick n) (replicate n Started, w) = pass E (map Awaiting ?rs) ?w2"
    by (simp only: sameTick_def run_append s1 s2 s3)
  show ?thesis
    using pass_deliver [of E ?rs ?w2 w] by (simp add: all comp_def)
qed

text \<open>
  Claim C1, amended: the code shares no pending refresh.  When \<open>n\<close> calls of the token
  accessor are made in the same tick on a mounted provider while the stored access token's
  decoded expiry is within five minutes of the current time, every call issues its own
  refresh request, \<open>n\<close> in all, and call \<open>i\<close> receives the access token of the response
  to its own request (the \<open>i\<close>-th one) whenever that response is ok and carries token
  data.
\<close>

theorem concurrent_calls_refresh_each:
  assumes ref: "refreshAccessTokenRef w = RefreshAccessToken"
    and clock: "0 \<le> dateNow E"
    and stored: "getItem E TOKEN_STORAGE_KEY w = Some storedTokens" "storedTokens \<noteq> []"
    and parsed: "JSON_parse E storedTokens = Some (Obj kvs)"
    and tok: "map_of kvs (js ''accessToken'') = Some (Str t)"
    and payload: "decodeJWT E (Str t) = Obj claims"
    and exp: "map_of claims (js ''exp'') = Some (Num e)"
    and expiring: "\<not> 300000 < e * 1000 - dateNow E"
  shows "requests (snd (run E (sameTick n) (replicate n Started, w))) =
           requests w @ replicate n (refreshRequest E (getProp (Obj kvs) (js ''refreshToken''))) \<and>
         (\<forall>i < n. \<forall>r tokenData.
            server E (requests w @ replicate i (refreshRequest E (getProp (Obj kvs) (js ''refreshToken''))))
              (refreshRequest E (getProp (Obj kvs) (js ''refreshToken''))) = Responded r \<and>
            ok r \<and> JSON_parse E (bodyText r) = Some tokenData \<and>
            tokenData \<noteq> Null \<and> tokenData \<noteq> Undefined \<longrightarrow>
            fst (run E (sameTick n) (replicate n Started, w)) ! i =
              Done (Inr (getProp tokenData (js ''access_token''))))"
proof -
  let ?req = "refreshRequest E (getProp (Obj kvs) (js ''refreshToken''))"
  have at: "getProp (Obj kvs) (js ''accessToken'') = Str t" using tok by simp
  have ex: "isTokenExpired E (getProp (Obj kvs) (js ''accessToken''))"
    unfolding at using isTokenExpired_numeric [OF payload exp clock] expiring by simp
  note main = run_sameTick_expired [OF stored parsed _ _ ex ref, of n]
  have reqs: "requests (snd (run E (sameTick n) (replicate n Started, w))) =
      requests w @ replicate n ?req"
    using main by simp
  have res: "fst (run E (sameTick n) (replicate n Started, w)) ! i =
      Done (fst (refreshDeliver E (server E (requests w @ replicate i ?req) ?req) w))"
    if "i < n" for i
    using main that by simp
  show ?thesis
    using reqs res refreshDeliver_success [of _ E _ w] by (simp del: getProp.simps) 
qed

lemma sameTick_two: "sameTick 2 = [0, 1, 0, 1, 0, 1]"
  by (simp add: sameTick_def upt_rec numeral_2_eq_2)

lemma replicate_two_started: "replicate 2 Started = [Started, Started]"
  by (simp add: numeral_2_eq_2)

lemma rotating_expired:
  "isTokenExpired (rotatingEnv 1800000) (Str jwtExp2000)"
  by (simp add: isTokenExpired_def decodeJWT_def decodeJWT_try_def rotatingEnv_def
      sample_defs base64_defs)

text \<open>
  Claim C1 as stated fails: two calls made in the same tick, with the stored token past
  its safety margin, issue two refresh requests, and against a server that rotates tokens
  the two callers receive different access tokens.
\<close>

theorem concurrent_refresh_counterexample:
  "requests (snd (run (rotatingEnv 1800000) (sameTick 2)
      (replicate 2 Started, storedWorld Native jwtExp2000))) =
     [refreshRequest (rotatingEnv 1800000) (Str (js ''r1'')),
      refreshRequest (rotatingEnv 1800000) (Str (js ''r1''))] \<and>
   fst (run (rotatingEnv 1800000) (sameTick 2)
      (replicate 2 Started, storedWorld Native jwtExp2000)) =
     [Done (Inr (Str (js ''a2''))), Done (Inr (Str (js ''a3'')))]"
proof -
  let ?E = "rotatingEnv 1800000"
  let ?w = "storedWorld Native jwtExp2000"
  let ?req = "refreshRequest ?E (Str (js ''r1''))"
  have os: "platformOS ?E = Native" by (simp add: rotatingEnv_def tableEnv_def)
  have g: "getItem ?E TOKEN_STORAGE_KEY ?w = Some (tokensText jwtExp2000 (js ''r1''))"
    by (simp add: getItem_def setItem_def storedWorld_def sampleEnv_def rotatingEnv_def tableEnv_def)
  have ne: "tokensText jwtExp2000 (js ''r1'') \<noteq> []"
    by (simp add: tokensText_def jsq_def)
  have p: "JSON_parse ?E (tokensText jwtExp2000 (js ''r1'')) = Some (tokensValue jwtExp2000 (js ''r1''))"
    by (simp add: rotatingEnv_def sample_defs)
  have at: "getProp (tokensValue jwtExp2000 (js ''r1'')) (js ''accessToken'') = Str jwtExp2000"
    and rt: "getProp (tokensValue jwtExp2000 (js ''r1'')) (js ''refreshToken'') = Str (js ''r1'')"
    by (simp_all add: tokensValue_def js_def)
  have ex: "isTokenExpired ?E (getProp (tokensValue jwtExp2000 (js ''r1'')) (js ''accessToken''))"
    unfolding at by (rule rotating_expired)
  have ref: "refreshAccessTokenRef ?w = RefreshAccessToken"
    by (simp add: storedWorld_def emptyWorld_def)
  have reqs: "requests ?w = []"
    by (simp add: storedWorld_def emptyWorld_def)
  have nn: "tokensValue jwtExp2000 (js ''r1'') \<noteq> Null" "tokensValue jwtExp2000 (js ''r1'') \<noteq> Undefined"
    by (simp_all add: tokensValue_def)
  have s0: "server ?E [] ?req =
      Responded \<lparr>ok = True, status = 200, bodyText = tokenResponseText (js ''a2'') (js ''r2'')\<rparr>"
    and s1: "server ?E [?req] ?req =
      Responded \<lparr>ok = True, status = 200, bodyText = tokenResponseText (js ''a3'') (js ''r3'')\<rparr>"
    by (simp_all add: rotatingEnv_def tableEnv_def rotatingServer_def)
  have d0: "fst (refreshDeliver ?E (server ?E [] ?req) ?w) = Inr (Str (js ''a2''))"
    unfolding s0
    by (subst refreshDeliver_success [where tokenData = "tokenResponseValue (js ''a2'') (js ''r2'')"])
      (simp_all add: rotatingEnv_def sample_defs)
  have d1: "fst (refreshDeliver ?E (server ?E [?req] ?req) ?w) = Inr (Str (js ''a3''))"
    unfolding s1
    by (subst refreshDeliver_success [where tokenData = "tokenResponseValue (js ''a3'') (js ''r3'')"])
      (simp_all add: rotatingEnv_def sample_defs)
  have up: "[0..<2] = [0, 1]" by (simp add: upt_rec numeral_2_eq_2)
  have rep: "\<And>x::request. replicate 2 x = [x, x]" by (simp add: numeral_2_eq_2)
  note main = run_sameTick_expired [OF g ne p nn ex ref, of 2]
  show ?thesis
    using main unfolding rt reqs up by (simp add: d0 d1 rep)
qed

theorem concurrent_calls_refresh_each_witness:
  "requests (snd (run (sampleEnv Native 1800000) (sameTick 2)
      (replicate 2 Started, storedWorld Native jwtExp2000))) =
     [refreshRequest (sampleEnv Native 1800000) (Str (js ''r1'')),
      refreshRequest (sampleEnv Native 1800000) (Str (js ''r1''))] \<and>
   fst (run (sampleEnv Native 1800000) (sameTick 2)
      (replicate 2 Started, storedWorld Native jwtExp2000)) ! 0 = Done (Inr (Str (js ''a2''))) \<and>
   fst (run (sampleEnv Native 1800000) (sameTick 2)
      (replicate 2 Started, storedWorld Native jwtExp2000)) ! 1 = Done (Inr (Str (js ''a2'')))"
proof -
  let ?E = "sampleEnv Native 1800000"
  let ?w = "storedWorld Native jwtExp2000"
  let ?kvs = "[(js ''accessToken'', Str jwtExp2000), (js ''refreshToken'', Str (js ''r1''))]"
  let ?req = "refreshRequest ?E (getProp (Obj ?kvs) (js ''refreshToken''))"
  let ?out = "fst (run ?E (sameTick 2) (replicate 2 Started, ?w))"
  have ref: "refreshAccessTokenRef ?w = RefreshAccessToken"
    by (simp add: storedWorld_def emptyWorld_def)
  have clock: "0 \<le> dateNow ?E"
    by (simp add: sampleEnv_def tableEnv_def)
  have ne: "tokensText jwtExp2000 (js ''r1'') \<noteq> []"
    by (simp add: tokensText_def jsq_def)
  have tok: "map_of ?kvs (js ''accessToken'') = Some (Str jwtExp2000)"
    by simp
  have ex: "map_of [(js ''exp'', Num 2000)] (js ''exp'') = Some (Num 2000)"
    by simp
  have expiring: "\<not> 300000 < 2000 * 1000 - dateNow ?E"
    by (simp add: sampleEnv_def tableEnv_def)
  have rt: "getProp (Obj ?kvs) (js ''refreshToken'') = Str (js ''r1'')"
    by (simp add: js_def)
  have reqs: "requests ?w = []"
    by (simp add: storedWorld_def emptyWorld_def)
  have acc: "getProp (tokenResponseValue (js ''a2'') (js ''r2'')) (js ''access_token'') = Str (js ''a2'')"
    by (simp add: tokenResponseValue_def)
  have nn: "tokenResponseValue (js ''a2'') (js ''r2'') \<noteq> Null"
    "tokenResponseValue (js ''a2'') (js ''r2'') \<noteq> Undefined"
    by (simp_all add: tokenResponseValue_def)
  have okr: "ok \<lparr>ok = True, status = 200, bodyText = tokenResponseText (js ''a2'') (js ''r2'')\<rparr>"
    by simp
  have pr: "JSON_parse ?E
      (bodyText \<lparr>ok = True, status = 200, bodyText = tokenResponseText (js ''a2'') (js ''r2'')\<rparr>) =
      Some (tokenResponseValue (js ''a2'') (js ''r2''))"
    by (simp add: sample_parse_response)
  note inst = concurrent_calls_refresh_each [OF ref clock sample_getItem_native ne
      sample_parse_exp tok sample_decode_exp ex expiring, of 2]
  from inst have r: "requests (snd (run ?E (sameTick 2) (replicate 2 Started, ?w))) =
      requests ?w @ replicate 2 ?req"
    by blast
  from inst have s: "\<And>i r tokenData. i < 2 \<Longrightarrow>
      server ?E (requests ?w @ replicate i ?req) ?req = Responded r \<Longrightarrow> ok r \<Longrightarrow>
      JSON_parse ?E (bodyText r) = Some tokenData \<Longrightarrow>
      tokenData \<noteq> Null \<Longrightarrow> tokenData \<noteq> Undefined \<Longrightarrow>
      ?out ! i = Done (Inr (getProp tokenData (js ''access_token'')))"
    by blast
  have o0: "?out ! 0 = Done (Inr (Str (js ''a2'')))"
    using s [OF _ sample_server okr pr nn, of 0] by (simp add: acc)
  have o1: "?out ! 1 = Done (Inr (Str (js ''a2'')))"
    using s [OF _ sample_server okr pr nn, of 1] by (simp add: acc)
  have r2: "requests (snd (run ?E (sameTick 2) (replicate 2 Started, ?w))) =
      [refreshRequest ?E (Str (js ''r1'')), refreshRequest ?E (Str (js ''r1''))]"
    using r by (simp only: rt reqs replicate_two append_Nil)
  show ?thesis using r2 o0 o1 by simp
qed

section \<open>Query chain: results\<close>

lemma length_five:
  assumes "length rs = 5"
  obtains a b c d e where "rs = [a, b, c, d, e]"
proof -
  from assms have "length rs = Suc (Suc (Suc (Suc (Suc 0))))"
    by simp
  then show ?thesis
    using that by (auto simp: length_Suc_conv)
qed

text \<open>
  Claim C8: over a fetched set of five ordered records, \<open>limit(2)\<close> and \<open>offset(1)\<close>
  return exactly the records at indices 1 and 2, in whichever order the two calls were
  chained after the base fetch-all call.
\<close>

theorem limit_offset_five:
  assumes "length rs = 5"
  shows "resolve (offset 1 (limit 2 (getAll rs))) = [rs ! 1, rs ! 2] \<and>
         resolve (limit 2 (offset 1 (getAll rs))) = [rs ! 1, rs ! 2]"
proof -
  from assms obtain a b c d e where rs: "rs = [a, b, c, d, e]"
    by (rule length_five)
  have two: "take 2 [b, c, d, e] = [b, c]"
    by (simp add: numeral_2_eq_2)
  show ?thesis
    by (simp add: rs resolve_def offset_def limit_def getAll_def two)
qed

theorem limit_offset_five_witness:
  "resolve (offset 1 (limit 2 (getAll [10, 20, 30, 40, 50 :: nat]))) = [20, 30] \<and>
   resolve (limit 2 (offset 1 (getAll [10, 20, 30, 40, 50 :: nat]))) = [20, 30]"
  using limit_offset_five [of "[10, 20, 30, 40, 50 :: nat]"] by simp


end
